theory Spec2Isabelle
  imports Main "HOL-Library.Sublist" "HOL-Library.AList"
begin

section \<open>Go strings and numbers\<close>

text \<open>
  A Go string is a byte sequence, here a \<open>string\<close>. \<open>strings.Contains s substr\<close> tells
  whether \<open>substr\<close> occurs in \<open>s\<close> as a contiguous block; the empty string occurs in
  every string.
\<close>

fun strings_Contains :: "string \<Rightarrow> string \<Rightarrow> bool" where
  "strings_Contains [] substr = (substr = [])"
| "strings_Contains (c # cs) substr = (prefix substr (c # cs) \<or> strings_Contains cs substr)"

text \<open>
  \<open>strings.Split s sep\<close> for a separator of one byte, which is how the source calls it
  (\<open>","\<close>): the fields between the separators, in order; a string without separator
  (the empty string too) gives one field. \<open>split_fields\<close> carries the field being read,
  reversed.
\<close>

fun split_fields :: "char \<Rightarrow> string \<Rightarrow> string \<Rightarrow> string list" where
  "split_fields sep cur [] = [rev cur]"
| "split_fields sep cur (c # cs) =
     (if c = sep then rev cur # split_fields sep [] cs else split_fields sep (c # cur) cs)"

definition strings_Split :: "string \<Rightarrow> char \<Rightarrow> string list" where
  "strings_Split s sep = split_fields sep [] s"

text \<open>
  \<open>strconv.Itoa\<close>: the decimal text of an integer. Go's \<open>int\<close> has 64 bits; no
  arithmetic is done on the numbers below, so they are modelled as \<open>int\<close>.
\<close>

definition digit_char :: "nat \<Rightarrow> char" where
  "digit_char d = ''0123456789'' ! d"

function nat_digits :: "nat \<Rightarrow> string" where
  "nat_digits n =
     (if n < 10 then [digit_char n] else nat_digits (n div 10) @ [digit_char (n mod 10)])"
  by pat_completeness auto
termination
  by (relation "measure (\<lambda>n. n)") auto

declare nat_digits.simps [simp del]

definition strconv_Itoa :: "int \<Rightarrow> string" where
  "strconv_Itoa i = (if i < 0 then CHR ''-'' # nat_digits (nat (- i)) else nat_digits (nat i))"

section \<open>Data of the client package\<close>

text \<open>\<open>RedisConnection\<close> of \<open>pkg/clients/redis/redis.go\<close>.\<close>

record RedisConnection =
  rc_Username :: string
  rc_Password :: string
  rc_ConnectionDomain :: string
  rc_Port :: string

text \<open>
  \<open>aliredis.DBInstanceAttribute\<close>, the vendor's description of an instance: the fields
  the repository reads. \<open>Port\<close> is an \<open>int64\<close>, \<open>ReadOnlyCount\<close> an \<open>int\<close>.
\<close>

record DBInstanceAttribute =
  attr_InstanceId :: string
  attr_InstanceStatus :: string
  attr_ConnectionDomain :: string
  attr_Port :: int
  attr_ArchitectureType :: string
  attr_InstanceClass :: string
  attr_RealInstanceClass :: string
  attr_ReadOnlyCount :: int
  attr_SecurityIPList :: string
  attr_Config :: string

text \<open>\<open>v1alpha1.Tag\<close> of \<open>redis_types.go\<close>.\<close>

record Tag =
  tag_Key :: string
  tag_Value :: string

text \<open>
  Modelled from the spec: the fields \<open>p_EffectiveTime\<close>, \<open>p_SecurityIps\<close> and
  \<open>p_ParameterConfig\<close> of \<open>v1alpha1.RedisInstanceParameters\<close> (the spec's security IP
  list and parameter JSON blob, and the effective time of a spec change), which the
  declaration in \<open>redis_types.go\<close> does not list and the drift detectors of \<open>redis.go\<close>
  read as \<open>p.EffectiveTime\<close>, \<open>p.SecurityIps\<close>, \<open>p.ParameterConfig\<close>, each compared with
  \<open>""\<close>, hence strings. The other fields are those of \<open>redis_types.go\<close>; a field of type
  \<open>*int\<close> is an \<open>int option\<close>, \<open>None\<close> for \<open>nil\<close>.
\<close>

record RedisInstanceParameters =
  p_RegionID :: string
  p_Token :: string
  p_InstanceName :: string
  p_Password :: string
  p_Capacity :: "int option"
  p_InstanceClass :: string
  p_ZoneID :: string
  p_ChargeType :: string
  p_NodeType :: string
  p_NetworkType :: string
  p_VpcID :: string
  p_VSwitchID :: string
  p_Period :: string
  p_BusinessInfo :: string
  p_CouponNo :: string
  p_SrcDBInstanceId :: string
  p_BackupId :: string
  p_InstanceType :: string
  p_EngineVersion :: string
  p_PrivateIpAddress :: string
  p_AutoUseCoupon :: string
  p_AutoRenew :: string
  p_AutoRenewPeriod :: string
  p_ResourceGroupId :: string
  p_RestoreTime :: string
  p_DedicatedHostGroupId :: string
  p_ShardCount :: "int option"
  p_ReadOnlyCount :: "int option"
  p_GlobalInstanceId :: string
  p_GlobalInstance :: bool
  p_SecondaryZoneID :: string
  p_Port :: "int option"
  p_GlobalSecurityGroupIds :: string
  p_Appendonly :: string
  p_ConnectionStringPrefix :: string
  p_ParamGroupId :: string
  p_Tag :: "Tag list"
  p_ClusterBackupId :: string
  p_EffectiveTime :: string
  p_SecurityIps :: string
  p_ParameterConfig :: string

definition DefaultIPModifyMode :: string where
  "DefaultIPModifyMode = ''Cover''"

definition RedisArchTypeCluster :: string where
  "RedisArchTypeCluster = ''cluster''"

section \<open>Connection details\<close>

text \<open>
  \<open>managed.ConnectionDetails\<close> is a \<open>map[string][]byte\<close>. The four keys are the
  constants \<open>xpv1.ResourceCredentialsSecret...Key\<close> of the controller framework.
\<close>

type_synonym ConnectionDetails = "string \<rightharpoonup> string"

definition ResourceCredentialsSecretUserKey :: string where
  "ResourceCredentialsSecretUserKey = ''username''"

definition ResourceCredentialsSecretPasswordKey :: string where
  "ResourceCredentialsSecretPasswordKey = ''password''"

definition ResourceCredentialsSecretEndpointKey :: string where
  "ResourceCredentialsSecretEndpointKey = ''endpoint''"

definition ResourceCredentialsSecretPortKey :: string where
  "ResourceCredentialsSecretPortKey = ''port''"

text \<open>
  A call either returns or panics (a nil pointer is dereferenced, a nil map is written).
\<close>

datatype 'a go_result = Panics | Returns 'a

text \<open>
  \<open>getConnectionDetails(c *redis.RedisConnection)\<close> of the controller: \<open>None\<close> is the
  nil pointer, whose first field read panics.
\<close>

definition getConnectionDetails :: "RedisConnection option \<Rightarrow> ConnectionDetails go_result" where
  "getConnectionDetails conn =
     (case conn of
        None \<Rightarrow> Panics
      | Some c \<Rightarrow>
          (let cd = Map.empty;
               cd = (if rc_Username c \<noteq> []
                     then cd(ResourceCredentialsSecretUserKey \<mapsto> rc_Username c) else cd);
               cd = (if rc_Password c \<noteq> []
                     then cd(ResourceCredentialsSecretPasswordKey \<mapsto> rc_Password c) else cd);
               cd = (if rc_ConnectionDomain c \<noteq> []
                     then cd(ResourceCredentialsSecretEndpointKey \<mapsto> rc_ConnectionDomain c) else cd);
               cd = (if rc_Port c \<noteq> []
                     then cd(ResourceCredentialsSecretPortKey \<mapsto> rc_Port c) else cd)
           in Returns cd))"

section \<open>Drift detectors\<close>

text \<open>
  The vendor's \<open>ModifySecurityIpsRequest\<close>: the fields the repository writes;
  \<open>aliredis.CreateModifySecurityIpsRequest()\<close> leaves them all empty.
\<close>

record ModifySecurityIpsRequest =
  msi_InstanceId :: string
  msi_SecurityIps :: string
  msi_ModifyMode :: string

definition CreateModifySecurityIpsRequest :: ModifySecurityIpsRequest where
  "CreateModifySecurityIpsRequest =
     \<lparr>msi_InstanceId = [], msi_SecurityIps = [], msi_ModifyMode = []\<rparr>"

text \<open>
  The loop of \<open>SecurityIpsNeedUpdate\<close> over the configured entries: it stops with
  \<open>needUpdate = true\<close> at the first entry that is not contained in the desired string.
\<close>

fun ips_loop :: "string list \<Rightarrow> string \<Rightarrow> bool" where
  "ips_loop [] desired = False"
| "ips_loop (ip # ips) desired =
     (if \<not> strings_Contains desired ip then True else ips_loop ips desired)"

definition SecurityIpsNeedUpdate ::
  "DBInstanceAttribute \<Rightarrow> RedisInstanceParameters \<Rightarrow> ModifySecurityIpsRequest option" where
  "SecurityIpsNeedUpdate attr p =
     (if p_SecurityIps p = [] then None
      else
        let ips = strings_Split (attr_SecurityIPList attr) CHR '','';
            needUpdate = ips_loop ips (p_SecurityIps p)
        in if needUpdate
           then Some (CreateModifySecurityIpsRequest
                  \<lparr>msi_SecurityIps := p_SecurityIps p, msi_ModifyMode := DefaultIPModifyMode\<rparr>)
           else None)"

text \<open>The earlier form of the detector (two strings in, a flag out).\<close>

definition SecurityIpsNeedUpdate_flag :: "string \<Rightarrow> string \<Rightarrow> bool" where
  "SecurityIpsNeedUpdate_flag configuredIps parameterIps =
     (if parameterIps = [] then False
      else ips_loop (strings_Split configuredIps CHR '','') parameterIps)"

text \<open>
  The vendor's \<open>ModifyInstanceSpecRequest\<close>: the fields the repository writes.
  \<open>ReadOnlyCount\<close> is a \<open>requests.Integer\<close>, a string holding the decimal text
  (\<open>requests.NewInteger\<close> is \<open>strconv.Itoa\<close>).
\<close>

record ModifyInstanceSpecRequest =
  mis_InstanceId :: string
  mis_EffectiveTime :: string
  mis_InstanceClass :: string
  mis_ReadOnlyCount :: string

definition CreateModifyInstanceSpecRequest :: ModifyInstanceSpecRequest where
  "CreateModifyInstanceSpecRequest =
     \<lparr>mis_InstanceId = [], mis_EffectiveTime = [], mis_InstanceClass = [],
      mis_ReadOnlyCount = []\<rparr>"

definition requests_NewInteger :: "int \<Rightarrow> string" where
  "requests_NewInteger i = strconv_Itoa i"

definition calculateSpecDiff ::
  "DBInstanceAttribute \<Rightarrow> RedisInstanceParameters \<Rightarrow> ModifyInstanceSpecRequest option" where
  "calculateSpecDiff attr p =
     (let diff = CreateModifyInstanceSpecRequest;
          diff = (if p_EffectiveTime p \<noteq> [] then diff\<lparr>mis_EffectiveTime := p_EffectiveTime p\<rparr>
                  else diff)
      in case (if attr_ArchitectureType attr = RedisArchTypeCluster
               then (if attr_RealInstanceClass attr \<noteq> p_InstanceClass p
                     then Some (diff\<lparr>mis_InstanceClass := p_InstanceClass p\<rparr>) else None)
               else (if attr_InstanceClass attr \<noteq> p_InstanceClass p
                     then Some (diff\<lparr>mis_InstanceClass := p_InstanceClass p\<rparr>) else None)) of
           Some classDiff \<Rightarrow> Some classDiff
         | None \<Rightarrow>
             (case p_ReadOnlyCount p of
                Some n \<Rightarrow>
                  if attr_ReadOnlyCount attr \<noteq> n
                  then Some (diff\<lparr>mis_ReadOnlyCount := requests_NewInteger n\<rparr>)
                  else None
              | None \<Rightarrow> None))"

definition SpecsNeedUpdate ::
  "DBInstanceAttribute \<Rightarrow> RedisInstanceParameters \<Rightarrow> ModifyInstanceSpecRequest option" where
  "SpecsNeedUpdate attr p = calculateSpecDiff attr p"

section \<open>Errors\<close>

text \<open>
  The vendor SDK's \<open>*sdkerrors.ServerError\<close>: its private fields, read through the
  accessors \<open>HttpStatus()\<close>, \<open>HostId()\<close>, \<open>ErrorCode()\<close>, \<open>Message()\<close>, \<open>Comment()\<close>;
  \<open>se_requestId\<close> is the per-request correlation identifier.
\<close>

record ServerError =
  se_httpStatus :: int
  se_requestId :: string
  se_hostId :: string
  se_errorCode :: string
  se_recommend :: string
  se_message :: string
  se_comment :: string

text \<open>
  The error values that reach the repository's code:
  \<^item> \<open>ServerErr\<close>: a \<open>*sdkerrors.ServerError\<close>;
  \<^item> \<open>Fundamental a msg\<close>: the value made by \<open>errors.New(msg)\<close> of \<open>github.com/pkg/errors\<close>,
    a pointer; \<open>a\<close> is its address, so two calls with the same text give different values;
  \<^item> \<open>Wrapped cause msg\<close>: \<open>errors.Wrap(cause, msg)\<close>, which \<open>Unwrap\<close> opens;
  \<^item> \<open>Foreign msg\<close>: any other error (of the JSON encoder, the random source, the
    transport), which has no \<open>Unwrap\<close>.
  An \<open>error\<close> that may be \<open>nil\<close> is a \<open>go_error option\<close>.
\<close>

datatype go_error =
    ServerErr ServerError
  | Fundamental nat string
  | Wrapped go_error string
  | Foreign string

section \<open>Requests, responses and the trace of calls\<close>

text \<open>The vendor's request types for describing and deleting an instance: the fields the
  repository writes.\<close>

record DescribeInstanceAttributeRequest =
  dia_Scheme :: string
  dia_InstanceId :: string

record DeleteInstanceRequest =
  di_Scheme :: string
  di_InstanceId :: string

record CreateInstanceTag =
  cit_Key :: string
  cit_Value :: string

text \<open>
  The vendor's \<open>CreateInstanceRequest\<close>: the fields \<open>CreateInstance\<close> writes. The two
  timeouts are \<open>time.Duration\<close>s, in nanoseconds; \<open>Capacity\<close>, \<open>ShardCount\<close>,
  \<open>ReadOnlyCount\<close> are \<open>requests.Integer\<close> and \<open>GlobalInstance\<close> a \<open>requests.Boolean\<close>,
  both strings; \<open>Tag\<close> points to a slice.
\<close>

record CreateInstanceRequest =
  cir_ConnectTimeout :: int
  cir_ReadTimeout :: int
  cir_Token :: string
  cir_InstanceName :: string
  cir_InstanceClass :: string
  cir_ZoneId :: string
  cir_ChargeType :: string
  cir_NodeType :: string
  cir_NetworkType :: string
  cir_VpcId :: string
  cir_VSwitchId :: string
  cir_Period :: string
  cir_BusinessInfo :: string
  cir_CouponNo :: string
  cir_SrcDBInstanceId :: string
  cir_BackupId :: string
  cir_InstanceType :: string
  cir_EngineVersion :: string
  cir_PrivateIpAddress :: string
  cir_AutoUseCoupon :: string
  cir_AutoRenew :: string
  cir_AutoRenewPeriod :: string
  cir_ResourceGroupId :: string
  cir_RestoreTime :: string
  cir_DedicatedHostGroupId :: string
  cir_GlobalInstanceId :: string
  cir_GlobalInstance :: string
  cir_SecondaryZoneId :: string
  cir_GlobalSecurityGroupIds :: string
  cir_Appendonly :: string
  cir_ConnectionStringPrefix :: string
  cir_ParamGroupId :: string
  cir_ClusterBackupId :: string
  cir_Port :: string
  cir_Capacity :: string
  cir_ShardCount :: string
  cir_ReadOnlyCount :: string
  cir_Password :: string
  cir_Tag :: "CreateInstanceTag list option"

record CreateInstanceResponse =
  resp_InstanceId :: string
  resp_ConnectionDomain :: string
  resp_Port :: int

text \<open>
  What the calls leave behind: the next free address for \<open>errors.New\<close>, and the calls made
  to the outside, in order (to the password generator, to the vendor, and from the
  controller to its client).
\<close>

datatype event =
    CallPasswordGenerate
  | SdkCreateInstance CreateInstanceRequest
  | SdkDescribeInstanceAttribute DescribeInstanceAttributeRequest
  | SdkDeleteInstance DeleteInstanceRequest
  | ClientDescribeInstance string
  | ClientDeleteInstance string

record world =
  next_addr :: nat
  trace :: "event list"

definition emit :: "event \<Rightarrow> world \<Rightarrow> world" where
  "emit ev w = w\<lparr>trace := trace w @ [ev]\<rparr>"

section \<open>Making, wrapping and testing errors\<close>

definition errors_New :: "world \<Rightarrow> string \<Rightarrow> world \<times> go_error" where
  "errors_New w msg = (w\<lparr>next_addr := Suc (next_addr w)\<rparr>, Fundamental (next_addr w) msg)"

definition errors_Wrap :: "go_error option \<Rightarrow> string \<Rightarrow> go_error option" where
  "errors_Wrap err msg = (case err of None \<Rightarrow> None | Some e \<Rightarrow> Some (Wrapped e msg))"

text \<open>
  \<open>errors.As(err, &srverr)\<close> for a target of type \<open>*sdkerrors.ServerError\<close>: the first
  server error on the chain that \<open>Unwrap\<close> walks.
\<close>

fun errors_As_ServerError :: "go_error \<Rightarrow> ServerError option" where
  "errors_As_ServerError (ServerErr s) = Some s"
| "errors_As_ServerError (Fundamental a msg) = None"
| "errors_As_ServerError (Wrapped cause msg) = errors_As_ServerError cause"
| "errors_As_ServerError (Foreign msg) = None"

text \<open>
  \<open>errors.Is(err, target)\<close> for a target made by \<open>errors.New\<close>, the only kind the source
  passes: some value on the chain of \<open>err\<close> is that very pointer.
\<close>

fun errors_Is :: "go_error \<Rightarrow> go_error \<Rightarrow> bool" where
  "errors_Is (ServerErr s) target = False"
| "errors_Is (Fundamental a msg) target = (target = Fundamental a msg)"
| "errors_Is (Wrapped cause msg) target = errors_Is cause target"
| "errors_Is (Foreign msg) target = False"

text \<open>Every \<open>errors.New\<close> value inside an error was made before address \<open>n\<close> was free.\<close>

fun allocated :: "nat \<Rightarrow> go_error \<Rightarrow> bool" where
  "allocated n (ServerErr s) = True"
| "allocated n (Fundamental a msg) = (a < n)"
| "allocated n (Wrapped cause msg) = allocated n cause"
| "allocated n (Foreign msg) = True"

definition errInstanceNotFound :: string where
  "errInstanceNotFound = ''InstanceNotFound''"

definition errInstanceNotFoundCode :: string where
  "errInstanceNotFoundCode = ''InvalidInstanceId.NotFound''"

definition errDescribeInstanceFailed :: string where
  "errDescribeInstanceFailed = ''cannot describe instance attributes''"

definition errGeneratePasswordFailed :: string where
  "errGeneratePasswordFailed = ''cannot generate a password''"

definition errFailedToUnmarshalWantedConfig :: string where
  "errFailedToUnmarshalWantedConfig = ''cannot unmarshal the json config from users input''"

definition errFailedToUnmarshalRealConfig :: string where
  "errFailedToUnmarshalRealConfig = ''cannot unmarshal the json config from the real instance''"

definition errFailedToMarshalConfig :: string where
  "errFailedToMarshalConfig = ''cannot marshal the json config for the update params request''"

definition IsErrorNotFound :: "world \<Rightarrow> go_error option \<Rightarrow> world \<times> bool" where
  "IsErrorNotFound w err =
     (case err of
        None \<Rightarrow> (w, False)
      | Some e \<Rightarrow>
          (case errors_As_ServerError e of
             None \<Rightarrow>
               (let (w', target) = errors_New w errInstanceNotFound
                in (w', False \<or> errors_Is e target))
           | Some srverr \<Rightarrow> (w, se_errorCode srverr = errInstanceNotFoundCode)))"

section \<open>The outside: vendor SDK, JSON encoder, password generator\<close>

text \<open>\<open>CleanedServerError\<close> of \<open>redis.go\<close>: "same server error but without requestID".\<close>

record CleanedServerError =
  cse_HttpStatus :: int
  cse_HostId :: string
  cse_Code :: string
  cse_Message :: string
  cse_Comment :: string

text \<open>A Go \<open>map[string]string\<close>: \<open>None\<close> is the nil map, \<open>Some kvs\<close> a map with the
  entries \<open>kvs\<close>, each key once.\<close>

type_synonym go_map = "(string \<times> string) list option"

section \<open>JSON as \<open>encoding/json\<close> writes and reads it\<close>

text \<open>
  \<open>CleanError\<close> encodes a struct with \<open>json.Marshal\<close> and hands the text to the SDK, which
  decodes it with \<open>json.Unmarshal\<close>. Both directions are modelled on bytes.

  UTF-8 as \<open>utf8.DecodeRuneInString\<close> accepts it: \<open>rune_len s\<close> is the length of the
  encoding that starts a string whose first byte is not ASCII (two, three or four bytes,
  by the first byte and the range of the second), and \<open>0\<close> when the string starts
  with no such encoding.
\<close>

definition quote_char :: char where "quote_char = CHR 0x22"
definition backslash :: char where "backslash = CHR 0x5C"

definition bt :: "string \<Rightarrow> nat \<Rightarrow> nat" where
  "bt s i = (if i < length s then of_char (s ! i) else 0)"

definition cont :: "nat \<Rightarrow> bool" where
  "cont b = (128 \<le> b \<and> b \<le> 191)"

definition two_bytes :: "string \<Rightarrow> bool" where
  "two_bytes s = (194 \<le> bt s 0 \<and> bt s 0 \<le> 223 \<and> cont (bt s 1))"

definition three_bytes :: "string \<Rightarrow> bool" where
  "three_bytes s =
     (((bt s 0 = 224 \<and> 160 \<le> bt s 1 \<and> bt s 1 \<le> 191)
       \<or> (((225 \<le> bt s 0 \<and> bt s 0 \<le> 236) \<or> bt s 0 = 238 \<or> bt s 0 = 239) \<and> cont (bt s 1))
       \<or> (bt s 0 = 237 \<and> 128 \<le> bt s 1 \<and> bt s 1 \<le> 159))
      \<and> cont (bt s 2))"

definition four_bytes :: "string \<Rightarrow> bool" where
  "four_bytes s =
     (((bt s 0 = 240 \<and> 144 \<le> bt s 1 \<and> bt s 1 \<le> 191)
       \<or> (241 \<le> bt s 0 \<and> bt s 0 \<le> 243 \<and> cont (bt s 1))
       \<or> (bt s 0 = 244 \<and> 128 \<le> bt s 1 \<and> bt s 1 \<le> 143))
      \<and> cont (bt s 2) \<and> cont (bt s 3))"

definition rune_len :: "string \<Rightarrow> nat" where
  "rune_len s = (if two_bytes s then 2 else if three_bytes s then 3
                 else if four_bytes s then 4 else 0)"

definition replacement_char :: string where
  "replacement_char = [CHR 0xEF, CHR 0xBF, CHR 0xBD]"

text \<open>
  A string as \<open>json.Marshal\<close> writes it between the quotes, with HTML escaping on:
  ASCII from space on is kept, except the quote, the backslash and \<open><\<close>, \<open>>\<close>, \<open>&\<close>; the
  other ASCII bytes are escaped (with the short forms of Go 1.22; earlier versions write
  \<open>\u0008\<close> and \<open>\u000c\<close>, which read back alike); a byte that starts no UTF-8 encoding
  becomes \<open>\ufffd\<close>; U+2028 and U+2029 are escaped; any other encoding is copied.
\<close>

definition html_safe :: "char \<Rightarrow> bool" where
  "html_safe c = (32 \<le> (of_char c :: nat) \<and> (of_char c :: nat) < 128
                  \<and> c \<noteq> quote_char \<and> c \<noteq> backslash
                  \<and> c \<noteq> CHR ''<'' \<and> c \<noteq> CHR ''>'' \<and> c \<noteq> CHR ''&'')"

definition hex_digit :: "nat \<Rightarrow> char" where
  "hex_digit d = ''0123456789abcdef'' ! d"

definition ascii_escape :: "char \<Rightarrow> string" where
  "ascii_escape c =
     (if c = backslash \<or> c = quote_char then [backslash, c]
      else if c = CHR 0x08 then [backslash, CHR ''b'']
      else if c = CHR 0x0C then [backslash, CHR ''f'']
      else if c = CHR 0x0A then [backslash, CHR ''n'']
      else if c = CHR 0x0D then [backslash, CHR ''r'']
      else if c = CHR 0x09 then [backslash, CHR ''t'']
      else [backslash, CHR ''u'', CHR ''0'', CHR ''0'',
            hex_digit (of_char c div 16), hex_digit (of_char c mod 16)])"

definition line_separator :: string where
  "line_separator = [CHR 0xE2, CHR 0x80, CHR 0xA8]"

definition paragraph_separator :: string where
  "paragraph_separator = [CHR 0xE2, CHR 0x80, CHR 0xA9]"

function go_escape :: "string \<Rightarrow> string" where
  "go_escape [] = []"
| "go_escape (c # cs) =
     (if (of_char c :: nat) < 128
      then (if html_safe c then c # go_escape cs else ascii_escape c @ go_escape cs)
      else if rune_len (c # cs) = 0
      then backslash # ''ufffd'' @ go_escape cs
      else if take (rune_len (c # cs)) (c # cs) = line_separator
      then backslash # ''u2028'' @ go_escape (drop (rune_len (c # cs)) (c # cs))
      else if take (rune_len (c # cs)) (c # cs) = paragraph_separator
      then backslash # ''u2029'' @ go_escape (drop (rune_len (c # cs)) (c # cs))
      else take (rune_len (c # cs)) (c # cs) @ go_escape (drop (rune_len (c # cs)) (c # cs)))"
  by pat_completeness auto
termination
  by (relation "measure length") auto

declare go_escape.simps [simp del]

definition json_string :: "string \<Rightarrow> string" where
  "json_string s = quote_char # go_escape s @ [quote_char]"

text \<open>
  What reading such a string back gives: the string with every byte that starts no
  UTF-8 encoding replaced by U+FFFD. \<open>utf8_valid\<close> is \<open>utf8.ValidString\<close>.
\<close>

function coerce_utf8 :: "string \<Rightarrow> string" where
  "coerce_utf8 [] = []"
| "coerce_utf8 (c # cs) =
     (if (of_char c :: nat) < 128 then c # coerce_utf8 cs
      else if rune_len (c # cs) = 0 then replacement_char @ coerce_utf8 cs
      else take (rune_len (c # cs)) (c # cs) @ coerce_utf8 (drop (rune_len (c # cs)) (c # cs)))"
  by pat_completeness auto
termination
  by (relation "measure length") auto

declare coerce_utf8.simps [simp del]

function utf8_valid :: "string \<Rightarrow> bool" where
  "utf8_valid [] = True"
| "utf8_valid (c # cs) =
     (if (of_char c :: nat) < 128 then utf8_valid cs
      else if rune_len (c # cs) = 0 then False
      else utf8_valid (drop (rune_len (c # cs)) (c # cs)))"
  by pat_completeness auto
termination
  by (relation "measure length") auto

declare utf8_valid.simps [simp del]

text \<open>
  \<open>json.Marshal\<close> of a \<open>CleanedServerError\<close>: the five fields in the order of the struct,
  the integer as \<open>strconv\<close> writes it. It has no error to return for this type.
\<close>

definition json_Marshal_CleanedServerError :: "CleanedServerError \<Rightarrow> go_error + string" where
  "json_Marshal_CleanedServerError c =
     Inr (''{'' @ json_string ''HttpStatus'' @ '':'' @ strconv_Itoa (cse_HttpStatus c)
          @ '','' @ json_string ''HostId'' @ '':'' @ json_string (cse_HostId c)
          @ '','' @ json_string ''Code'' @ '':'' @ json_string (cse_Code c)
          @ '','' @ json_string ''Message'' @ '':'' @ json_string (cse_Message c)
          @ '','' @ json_string ''Comment'' @ '':'' @ json_string (cse_Comment c)
          @ ''}'')"

text \<open>
  Reading. \<open>read_escape\<close> reads what follows a backslash in a string (\<open>None\<close> for an
  escape of a surrogate, which is not modelled, and for what is no escape);
  \<open>unquote_body\<close> reads a string from behind its opening quote up to the closing quote and
  returns the bytes and the text that follows, as \<open>encoding/json\<close> does: a control
  character ends the reading, a byte that starts no UTF-8 encoding reads as U+FFFD.
\<close>

definition hex_value :: "char \<Rightarrow> nat option" where
  "hex_value c =
     (let b = (of_char c :: nat)
      in if 48 \<le> b \<and> b \<le> 57 then Some (b - 48)
         else if 97 \<le> b \<and> b \<le> 102 then Some (b - 87)
         else if 65 \<le> b \<and> b \<le> 70 then Some (b - 55)
         else None)"

definition utf8_encode :: "nat \<Rightarrow> string" where
  "utf8_encode v =
     (if v < 128 then [char_of v]
      else if v < 2048 then [char_of (192 + v div 64), char_of (128 + v mod 64)]
      else [char_of (224 + v div 4096), char_of (128 + v div 64 mod 64),
            char_of (128 + v mod 64)])"

definition read_escape :: "string \<Rightarrow> (string \<times> string) option" where
  "read_escape s =
     (case s of
        [] \<Rightarrow> None
      | e # r \<Rightarrow>
          if e = quote_char \<or> e = backslash \<or> e = CHR ''/'' then Some ([e], r)
          else if e = CHR ''b'' then Some ([CHR 0x08], r)
          else if e = CHR ''f'' then Some ([CHR 0x0C], r)
          else if e = CHR ''n'' then Some ([CHR 0x0A], r)
          else if e = CHR ''r'' then Some ([CHR 0x0D], r)
          else if e = CHR ''t'' then Some ([CHR 0x09], r)
          else if e = CHR ''u'' then
            (case r of
               h1 # h2 # h3 # h4 # r' \<Rightarrow>
                 (case (hex_value h1, hex_value h2, hex_value h3, hex_value h4) of
                    (Some a, Some b, Some c, Some d) \<Rightarrow>
                      (let v = ((a * 16 + b) * 16 + c) * 16 + d
                       in if 55296 \<le> v \<and> v \<le> 57343 then None
                          else Some (utf8_encode v, r'))
                  | _ \<Rightarrow> None)
             | _ \<Rightarrow> None)
          else None)"

function unquote_body :: "string \<Rightarrow> (string \<times> string) option" where
  "unquote_body [] = None"
| "unquote_body (c # cs) =
     (if c = quote_char then Some ([], cs)
      else if c = backslash then
        (case read_escape cs of
           None \<Rightarrow> None
         | Some (bytes, rest) \<Rightarrow>
             (case unquote_body rest of
                None \<Rightarrow> None
              | Some (v, r) \<Rightarrow> Some (bytes @ v, r)))
      else if (of_char c :: nat) < 32 then None
      else if (of_char c :: nat) < 128 then
        (case unquote_body cs of None \<Rightarrow> None | Some (v, r) \<Rightarrow> Some (c # v, r))
      else if rune_len (c # cs) = 0 then
        (case unquote_body cs of None \<Rightarrow> None | Some (v, r) \<Rightarrow> Some (replacement_char @ v, r))
      else
        (case unquote_body (drop (rune_len (c # cs)) (c # cs)) of
           None \<Rightarrow> None
         | Some (v, r) \<Rightarrow> Some (take (rune_len (c # cs)) (c # cs) @ v, r)))"
  by pat_completeness auto
termination
proof -
  have read_escape_shorter: "length r < length s" if "read_escape s = Some (v, r)" for s v r
    using that
    by (auto simp: read_escape_def Let_def split: list.splits if_splits option.splits)
  show ?thesis
    by (relation "measure length") (auto dest: read_escape_shorter)
qed

declare unquote_body.simps [simp del]

text \<open>
  \<open>flat_json_object\<close> reads the texts of one shape: an object, written without white
  space, whose members are strings or integers. It returns the members in order, and
  \<open>None\<close> for every other text (which may still be JSON). \<open>string_members\<close> is the
  lookup that the SDK makes in the decoded object: a later member of the same name
  replaces an earlier one.
\<close>

datatype json_member = JsonString string | JsonNumber

definition is_digit :: "char \<Rightarrow> bool" where
  "is_digit c = (48 \<le> (of_char c :: nat) \<and> (of_char c :: nat) \<le> 57)"

definition skip_int :: "string \<Rightarrow> string option" where
  "skip_int s =
     (let s1 = (case s of [] \<Rightarrow> s | c # r \<Rightarrow> if c = CHR ''-'' then r else s);
          ds = takeWhile is_digit s1;
          rest = dropWhile is_digit s1
      in if ds = [] then None
         else if hd ds = CHR ''0'' \<and> 1 < length ds then None
         else Some rest)"

definition parse_value :: "string \<Rightarrow> (json_member \<times> string) option" where
  "parse_value s =
     (case s of
        [] \<Rightarrow> None
      | c # r \<Rightarrow>
          if c = quote_char
          then (case unquote_body r of None \<Rightarrow> None | Some (v, r') \<Rightarrow> Some (JsonString v, r'))
          else (case skip_int s of None \<Rightarrow> None | Some r' \<Rightarrow> Some (JsonNumber, r')))"

function parse_members :: "string \<Rightarrow> (string \<times> json_member) list option" where
  "parse_members s =
     (case s of
        [] \<Rightarrow> None
      | q # s1 \<Rightarrow>
          if q \<noteq> quote_char then None
          else
            (case unquote_body s1 of
               None \<Rightarrow> None
             | Some (k, s2) \<Rightarrow>
                 (case s2 of
                    [] \<Rightarrow> None
                  | colon # s3 \<Rightarrow>
                      if colon \<noteq> CHR '':'' then None
                      else
                        (case parse_value s3 of
                           None \<Rightarrow> None
                         | Some (v, s4) \<Rightarrow>
                             (case s4 of
                                [] \<Rightarrow> None
                              | sep # s5 \<Rightarrow>
                                  if sep = CHR '',''
                                  then (case parse_members s5 of
                                          None \<Rightarrow> None
                                        | Some ms \<Rightarrow> Some ((k, v) # ms))
                                  else if sep = CHR ''}'' \<and> s5 = [] then Some [(k, v)]
                                  else None)))))"
  by pat_completeness auto
termination
proof -
  have read_escape_shorter: "length r < length s" if "read_escape s = Some (v, r)" for s v r
    using that
    by (auto simp: read_escape_def Let_def split: list.splits if_splits option.splits)
  have unquote_body_shorter: "length r < length s" if "unquote_body s = Some (v, r)" for s v r
    using that
  proof (induction "length s" arbitrary: s v r rule: less_induct)
    case less
    show ?case
    proof (cases s)
      case Nil
      with less.prems show ?thesis by (simp add: unquote_body.simps)
    next
      case (Cons c cs)
      have ih: "length r' < length s"
        if "unquote_body t = Some (v', r')" and "length t \<le> length cs" for t v' r'
      proof -
        from that(2) Cons have "length t < length s" by simp
        from less.hyps [OF this that(1)] this show ?thesis by simp
      qed
      from less.prems Cons
      have body: "unquote_body (c # cs) = Some (v, r)" by simp
      show ?thesis
      proof (cases "c = quote_char")
        case True
        with body Cons show ?thesis by (simp add: unquote_body.simps)
      next
        case not_quote: False
        show ?thesis
        proof (cases "c = backslash")
          case True
          with body not_quote obtain bytes rest v' where
            esc: "read_escape cs = Some (bytes, rest)" and rec: "unquote_body rest = Some (v', r)"
            by (auto simp: unquote_body.simps split: option.splits)
          from read_escape_shorter [OF esc] have "length rest \<le> length cs" by simp
          from ih [OF rec this] show ?thesis .
        next
          case not_backslash: False
          show ?thesis
          proof (cases "rune_len (c # cs) = 0 \<or> (of_char c :: nat) < 128")
            case True
            with body not_quote not_backslash obtain v' where "unquote_body cs = Some (v', r)"
              by (auto simp: unquote_body.simps split: option.splits if_splits)
            from ih [OF this] show ?thesis by simp
          next
            case False
            with body not_quote not_backslash obtain v' where
              "unquote_body (drop (rune_len (c # cs)) (c # cs)) = Some (v', r)"
              by (auto simp: unquote_body.simps split: option.splits if_splits)
            moreover from False have "length (drop (rune_len (c # cs)) (c # cs)) \<le> length cs"
              by (simp del: drop_Suc_Cons) arith
            ultimately show ?thesis by (rule ih)
          qed
        qed
      qed
    qed
  qed
  have dropWhile_shorter: "length (dropWhile P xs) < length xs" if "takeWhile P xs \<noteq> []"
    for P :: "char \<Rightarrow> bool" and xs
    using that by (cases xs) (auto simp: le_imp_less_Suc length_dropWhile_le split: if_splits)
  have skip_int_shorter: "length r < length s" if a: "skip_int s = Some r" for s r
  proof -
    let ?s1 = "case s of [] \<Rightarrow> s | c # r \<Rightarrow> if c = CHR ''-'' then r else s"
    from a have ne: "takeWhile is_digit ?s1 \<noteq> []" and r: "r = dropWhile is_digit ?s1"
      by (auto simp: skip_int_def Let_def split: if_splits)
    have "length ?s1 \<le> length s" by (cases s) auto
    with dropWhile_shorter [OF ne] r show ?thesis by simp
  qed
  have parse_value_shorter: "length r < length s" if "parse_value s = Some (v, r)" for s v r
    using that
    by (cases s)
       (auto simp: parse_value_def split: if_splits option.splits
         dest: unquote_body_shorter skip_int_shorter)
  show ?thesis
  proof (relation "measure length", goal_cases)
    case 1
    show ?case by simp
  next
    case (2 s q s1 x2 k s2 colon s3 x2a v s4 sep s5)
    from 2 have "length s2 < length s1" by (auto dest: unquote_body_shorter)
    moreover from 2 have "length s4 < length s3" by (auto dest: parse_value_shorter)
    ultimately show ?case using 2 by simp
  qed
qed

declare parse_members.simps [simp del]

definition flat_json_object :: "string \<Rightarrow> (string \<times> json_member) list option" where
  "flat_json_object s =
     (case s of
        [] \<Rightarrow> None
      | b # r \<Rightarrow>
          if b \<noteq> CHR ''{'' then None
          else if r = ''}'' then Some []
          else parse_members r)"

definition string_members :: "(string \<times> json_member) list \<Rightarrow> (string \<rightharpoonup> string)" where
  "string_members ms k =
     (case map_of (rev ms) k of Some (JsonString v) \<Rightarrow> Some v | _ \<Rightarrow> None)"


text \<open>
  What the repository calls and does not define, as parameters of the model:
  \<^item> the vendor's three calls, each a function of the request;
  \<^item> \<open>password.Generate()\<close> of the controller framework, whose outcome is one value;
  \<^item> \<open>json_object_strings\<close>: for a response body that \<open>flat_json_object\<close> does not
    read, the string members of its top-level object (\<open>None\<close> when the body is not JSON);
  \<^item> \<open>json.Unmarshal\<close> into a \<open>map[string]string\<close> variable that is nil before the call,
    and \<open>json.Marshal\<close> of such a map.
\<close>

record env =
  sdk_DescribeInstanceAttribute ::
    "DescribeInstanceAttributeRequest \<Rightarrow> go_error + DBInstanceAttribute list"
  sdk_CreateInstance :: "CreateInstanceRequest \<Rightarrow> go_error + CreateInstanceResponse"
  sdk_DeleteInstance :: "DeleteInstanceRequest \<Rightarrow> go_error option"
  password_Generate :: "go_error + string"
  json_object_strings :: "string \<Rightarrow> (string \<rightharpoonup> string) option"
  json_Unmarshal_map :: "string \<Rightarrow> go_error + go_map"
  json_Marshal_map :: "(string \<rightharpoonup> string) option \<Rightarrow> go_error + string"

text \<open>
  \<open>sdkerrors.NewServerError(httpStatus, responseContent, comment)\<close> of the SDK: the message
  is the response body, and when the body is JSON the members \<open>RequestId\<close>, \<open>HostId\<close>,
  \<open>Code\<close>, \<open>Recommend\<close> and \<open>Message\<close> that it has replace the empty fields and the
  message. The SDK asserts that these members are strings and panics on one that is not;
  here such a member reads as absent. The body that \<open>CleanError\<close> passes has the string
  members \<open>HostId\<close>, \<open>Code\<close>, \<open>Message\<close>, \<open>Comment\<close> and the number \<open>HttpStatus\<close>.
\<close>

definition member_or :: "(string \<rightharpoonup> string) \<Rightarrow> string \<Rightarrow> string \<Rightarrow> string" where
  "member_or data name dflt = (case data name of None \<Rightarrow> dflt | Some v \<Rightarrow> v)"

definition decoded_strings :: "env \<Rightarrow> string \<Rightarrow> (string \<rightharpoonup> string) option" where
  "decoded_strings E responseContent =
     (case flat_json_object responseContent of
        Some members \<Rightarrow> Some (string_members members)
      | None \<Rightarrow> json_object_strings E responseContent)"

definition NewServerError :: "env \<Rightarrow> int \<Rightarrow> string \<Rightarrow> string \<Rightarrow> ServerError" where
  "NewServerError E httpStatus responseContent comment =
     (let result = \<lparr>se_httpStatus = httpStatus, se_requestId = [], se_hostId = [],
                     se_errorCode = [], se_recommend = [], se_message = responseContent,
                     se_comment = comment\<rparr>
      in case decoded_strings E responseContent of
           None \<Rightarrow> result
         | Some data \<Rightarrow>
             result\<lparr>se_requestId := member_or data ''RequestId'' (se_requestId result),
                    se_hostId := member_or data ''HostId'' (se_hostId result),
                    se_errorCode := member_or data ''Code'' (se_errorCode result),
                    se_recommend := member_or data ''Recommend'' (se_recommend result),
                    se_message := member_or data ''Message'' (se_message result)\<rparr>)"

definition CleanError :: "env \<Rightarrow> go_error option \<Rightarrow> go_error option" where
  "CleanError E err =
     (case err of
        None \<Rightarrow> None
      | Some (ServerErr aliCloudErr) \<Rightarrow>
          (let cleanedErr = \<lparr>cse_HttpStatus = se_httpStatus aliCloudErr,
                             cse_HostId = se_hostId aliCloudErr,
                             cse_Code = se_errorCode aliCloudErr,
                             cse_Message = se_message aliCloudErr,
                             cse_Comment = se_comment aliCloudErr\<rparr>
           in case json_Marshal_CleanedServerError cleanedErr of
                Inl jerr \<Rightarrow>
                  errors_Wrap (Some jerr)
                    ''Failed to marshal cleaned error from AliCloud SDK Error.''
              | Inr strData \<Rightarrow>
                  Some (ServerErr (NewServerError E (se_httpStatus aliCloudErr) strData
                                     (se_comment aliCloudErr))))
      | Some e \<Rightarrow> Some e)"

section \<open>The client\<close>

definition HTTPSScheme :: string where
  "HTTPSScheme = ''https''"

definition ConnectTimeOut :: int where
  "ConnectTimeOut = 60 * 1000000000"

definition ReadTimeOut :: int where
  "ReadTimeOut = 60 * 1000000000"

definition strconv_FormatInt10 :: "int \<Rightarrow> string" where
  "strconv_FormatInt10 i = strconv_Itoa i"

definition requests_NewBoolean :: "bool \<Rightarrow> string" where
  "requests_NewBoolean b = (if b then ''true'' else ''false'')"

definition CreateDescribeInstanceAttributeRequest :: DescribeInstanceAttributeRequest where
  "CreateDescribeInstanceAttributeRequest = \<lparr>dia_Scheme = [], dia_InstanceId = []\<rparr>"

definition CreateDeleteInstanceRequest :: DeleteInstanceRequest where
  "CreateDeleteInstanceRequest = \<lparr>di_Scheme = [], di_InstanceId = []\<rparr>"

definition CreateCreateInstanceRequest :: CreateInstanceRequest where
  "CreateCreateInstanceRequest =
     \<lparr>cir_ConnectTimeout = 0, cir_ReadTimeout = 0, cir_Token = [], cir_InstanceName = [],
      cir_InstanceClass = [], cir_ZoneId = [], cir_ChargeType = [], cir_NodeType = [],
      cir_NetworkType = [], cir_VpcId = [], cir_VSwitchId = [], cir_Period = [],
      cir_BusinessInfo = [], cir_CouponNo = [], cir_SrcDBInstanceId = [], cir_BackupId = [],
      cir_InstanceType = [], cir_EngineVersion = [], cir_PrivateIpAddress = [],
      cir_AutoUseCoupon = [], cir_AutoRenew = [], cir_AutoRenewPeriod = [],
      cir_ResourceGroupId = [], cir_RestoreTime = [], cir_DedicatedHostGroupId = [],
      cir_GlobalInstanceId = [], cir_GlobalInstance = [], cir_SecondaryZoneId = [],
      cir_GlobalSecurityGroupIds = [], cir_Appendonly = [], cir_ConnectionStringPrefix = [],
      cir_ParamGroupId = [], cir_ClusterBackupId = [], cir_Port = [], cir_Capacity = [],
      cir_ShardCount = [], cir_ReadOnlyCount = [], cir_Password = [], cir_Tag = None\<rparr>"

text \<open>
  The three values a client method returns together (two pointers and an error) are a
  triple of options. \<open>DescribeInstance\<close> of \<open>redis.go\<close>:
\<close>

definition DescribeInstance ::
  "env \<Rightarrow> string \<Rightarrow> world \<Rightarrow>
     world \<times> DBInstanceAttribute option \<times> RedisConnection option \<times> go_error option" where
  "DescribeInstance E instanceId w =
     (let request = CreateDescribeInstanceAttributeRequest
                      \<lparr>dia_Scheme := HTTPSScheme, dia_InstanceId := instanceId\<rparr>;
          w1 = emit (SdkDescribeInstanceAttribute request) w
      in case sdk_DescribeInstanceAttribute E request of
           Inl err \<Rightarrow>
             (w1, None, None, errors_Wrap (CleanError E (Some err)) errDescribeInstanceFailed)
         | Inr instances \<Rightarrow>
             (case instances of
                [] \<Rightarrow>
                  (let (w2, notFound) = errors_New w1 errInstanceNotFound
                   in (w2, None, None, Some notFound))
              | attr # rest \<Rightarrow>
                  (let conn = \<lparr>rc_Username = [], rc_Password = [],
                               rc_ConnectionDomain = attr_ConnectionDomain attr,
                               rc_Port = strconv_FormatInt10 (attr_Port attr)\<rparr>
                   in (w1, Some attr, Some conn, None))))"

text \<open>
  The tag loop of \<open>CreateInstance\<close>: \<open>make([]aliredis.CreateInstanceTag, len(p.Tag))\<close>
  is a slice of that many zero values, and each turn appends one tag to it.
\<close>

definition make_CreateInstanceTags :: "nat \<Rightarrow> CreateInstanceTag list" where
  "make_CreateInstanceTags n = replicate n \<lparr>cit_Key = [], cit_Value = []\<rparr>"

fun append_tags :: "CreateInstanceTag list \<Rightarrow> Tag list \<Rightarrow> CreateInstanceTag list" where
  "append_tags requestTags [] = requestTags"
| "append_tags requestTags (tag # tags) =
     append_tags (requestTags @ [\<lparr>cit_Key = tag_Key tag, cit_Value = tag_Value tag\<rparr>]) tags"

definition CreateInstance ::
  "env \<Rightarrow> string \<Rightarrow> RedisInstanceParameters \<Rightarrow> world \<Rightarrow>
     world \<times> CreateInstanceResponse option \<times> RedisConnection option \<times> go_error option" where
  "CreateInstance E externalName p w =
     (let request = CreateCreateInstanceRequest
            \<lparr>cir_ConnectTimeout := ConnectTimeOut,
             cir_ReadTimeout := ReadTimeOut,
             cir_Token := p_Token p,
             cir_InstanceName := externalName,
             cir_InstanceClass := p_InstanceClass p,
             cir_ZoneId := p_ZoneID p,
             cir_ChargeType := p_ChargeType p,
             cir_NodeType := p_NodeType p,
             cir_NetworkType := p_NetworkType p,
             cir_VpcId := p_VpcID p,
             cir_VSwitchId := p_VSwitchID p,
             cir_Period := p_Period p,
             cir_BusinessInfo := p_BusinessInfo p,
             cir_CouponNo := p_CouponNo p,
             cir_SrcDBInstanceId := p_SrcDBInstanceId p,
             cir_BackupId := p_BackupId p,
             cir_InstanceType := p_InstanceType p,
             cir_EngineVersion := p_EngineVersion p,
             cir_PrivateIpAddress := p_PrivateIpAddress p,
             cir_AutoUseCoupon := p_AutoUseCoupon p,
             cir_AutoRenew := p_AutoRenew p,
             cir_AutoRenewPeriod := p_AutoRenewPeriod p,
             cir_ResourceGroupId := p_ResourceGroupId p,
             cir_RestoreTime := p_RestoreTime p,
             cir_DedicatedHostGroupId := p_DedicatedHostGroupId p,
             cir_GlobalInstanceId := p_GlobalInstanceId p,
             cir_GlobalInstance := requests_NewBoolean (p_GlobalInstance p),
             cir_SecondaryZoneId := p_SecondaryZoneID p,
             cir_GlobalSecurityGroupIds := p_GlobalSecurityGroupIds p,
             cir_Appendonly := p_Appendonly p,
             cir_ConnectionStringPrefix := p_ConnectionStringPrefix p,
             cir_ParamGroupId := p_ParamGroupId p,
             cir_ClusterBackupId := p_ClusterBackupId p\<rparr>;
          request = (case p_Port p of None \<Rightarrow> request
                     | Some n \<Rightarrow> request\<lparr>cir_Port := strconv_Itoa n\<rparr>);
          request = (case p_Capacity p of None \<Rightarrow> request
                     | Some n \<Rightarrow> request\<lparr>cir_Capacity := requests_NewInteger n\<rparr>);
          request = (case p_ShardCount p of None \<Rightarrow> request
                     | Some n \<Rightarrow> request\<lparr>cir_ShardCount := requests_NewInteger n\<rparr>);
          request = (case p_ReadOnlyCount p of None \<Rightarrow> request
                     | Some n \<Rightarrow> request\<lparr>cir_ReadOnlyCount := requests_NewInteger n\<rparr>);
          pw = [];
          (w1, pw, err) =
            (if p_Password p = []
             then (case password_Generate E of
                     Inl gerr \<Rightarrow> (emit CallPasswordGenerate w, pw, Some gerr)
                   | Inr generated \<Rightarrow> (emit CallPasswordGenerate w, generated, None))
             else (w, pw, None))
      in case err of
           Some gerr \<Rightarrow> (w1, None, None, errors_Wrap (Some gerr) errGeneratePasswordFailed)
         | None \<Rightarrow>
             (let request = request\<lparr>cir_Password := pw\<rparr>;
                  requestTags = make_CreateInstanceTags (length (p_Tag p));
                  requestTags = append_tags requestTags (p_Tag p);
                  request = request\<lparr>cir_Tag := Some requestTags\<rparr>;
                  w2 = emit (SdkCreateInstance request) w1
              in case sdk_CreateInstance E request of
                   Inl cerr \<Rightarrow> (w2, None, None, CleanError E (Some cerr))
                 | Inr resp \<Rightarrow>
                     (let conn = \<lparr>rc_Username = resp_InstanceId resp,
                                  rc_Password = pw,
                                  rc_ConnectionDomain = resp_ConnectionDomain resp,
                                  rc_Port = strconv_Itoa (resp_Port resp)\<rparr>
                      in (w2, Some resp, Some conn, None))))"

definition DeleteInstance :: "env \<Rightarrow> string \<Rightarrow> world \<Rightarrow> world \<times> go_error option" where
  "DeleteInstance E instanceId w =
     (let request = CreateDeleteInstanceRequest
                      \<lparr>di_Scheme := HTTPSScheme, di_InstanceId := instanceId\<rparr>;
          w1 = emit (SdkDeleteInstance request) w
      in (w1, CleanError E (sdk_DeleteInstance E request)))"

text \<open>\<open>GenerateObservation\<close>, into the \<open>v1alpha1.RedisInstanceObservation\<close> of the resource.\<close>

record RedisInstanceObservation =
  obs_InstanceStatus :: string
  obs_ConnectionReady :: bool
  obs_ConnectionDomain :: string
  obs_Port :: string

definition GenerateObservation :: "DBInstanceAttribute \<Rightarrow> RedisInstanceObservation" where
  "GenerateObservation attr =
     \<lparr>obs_InstanceStatus = attr_InstanceStatus attr,
      obs_ConnectionReady = False,
      obs_ConnectionDomain = attr_ConnectionDomain attr,
      obs_Port = strconv_FormatInt10 (attr_Port attr)\<rparr>"

subsection \<open>Parameter drift\<close>

record ModifyInstanceParameterRequest =
  mip_InstanceId :: string
  mip_Parameters :: string

definition CreateModifyInstanceParameterRequest :: ModifyInstanceParameterRequest where
  "CreateModifyInstanceParameterRequest = \<lparr>mip_InstanceId = [], mip_Parameters = []\<rparr>"

text \<open>
  The loop \<open>for key, val := range wanted\<close> of \<open>calculateParamDiff\<close>, over the entries of
  \<open>wanted\<close> in the order the runtime picks. Reading a nil map gives \<open>ok = false\<close>; writing
  to it panics.
\<close>

definition map_index :: "go_map \<Rightarrow> string \<Rightarrow> string \<times> bool" where
  "map_index m key =
     (case m of
        None \<Rightarrow> ([], False)
      | Some kvs \<Rightarrow> (case map_of kvs key of None \<Rightarrow> ([], False) | Some v \<Rightarrow> (v, True)))"

definition map_assign :: "go_map \<Rightarrow> string \<Rightarrow> string \<Rightarrow> go_map go_result" where
  "map_assign m key val =
     (case m of None \<Rightarrow> Panics | Some kvs \<Rightarrow> Returns (Some (AList.update key val kvs)))"

fun range_wanted ::
  "(string \<times> string) list \<Rightarrow> go_map \<Rightarrow> bool \<Rightarrow> (go_map \<times> bool) go_result" where
  "range_wanted [] actual needUpdate = Returns (actual, needUpdate)"
| "range_wanted ((key, val) # rest) actual needUpdate =
     (let (actualVal, ok) = map_index actual key
      in case (if ok \<and> actualVal \<noteq> val
               then (case map_assign actual key val of
                       Panics \<Rightarrow> Panics | Returns a \<Rightarrow> Returns (a, True))
               else Returns (actual, needUpdate)) of
           Panics \<Rightarrow> Panics
         | Returns (actual1, needUpdate1) \<Rightarrow>
             (case (if \<not> ok
                    then (case map_assign actual1 key val of
                            Panics \<Rightarrow> Panics | Returns a \<Rightarrow> Returns (a, True))
                    else Returns (actual1, needUpdate1)) of
                Panics \<Rightarrow> Panics
              | Returns (actual2, needUpdate2) \<Rightarrow> range_wanted rest actual2 needUpdate2))"

definition map_entries :: "go_map \<Rightarrow> (string \<times> string) list" where
  "map_entries m = (case m of None \<Rightarrow> [] | Some kvs \<Rightarrow> kvs)"

definition map_value :: "go_map \<Rightarrow> (string \<rightharpoonup> string) option" where
  "map_value m = map_option map_of m"

definition calculateParamDiff ::
  "env \<Rightarrow> DBInstanceAttribute \<Rightarrow> RedisInstanceParameters \<Rightarrow>
     (ModifyInstanceParameterRequest option \<times> go_error option) go_result" where
  "calculateParamDiff E attr p =
     (if p_ParameterConfig p = [] then Returns (None, None)
      else
        case json_Unmarshal_map E (attr_Config attr) of
          Inl err \<Rightarrow> Returns (None, errors_Wrap (Some err) errFailedToUnmarshalRealConfig)
        | Inr actual \<Rightarrow>
            (case json_Unmarshal_map E (p_ParameterConfig p) of
               Inl err \<Rightarrow> Returns (None, errors_Wrap (Some err) errFailedToUnmarshalWantedConfig)
             | Inr wanted \<Rightarrow>
                 (case range_wanted (map_entries wanted) actual False of
                    Panics \<Rightarrow> Panics
                  | Returns (actual', needUpdate) \<Rightarrow>
                      (case json_Marshal_map E (map_value actual') of
                         Inl err \<Rightarrow> Returns (None, errors_Wrap (Some err) errFailedToMarshalConfig)
                       | Inr configStr \<Rightarrow>
                           if needUpdate
                           then Returns
                                  (Some (CreateModifyInstanceParameterRequest
                                           \<lparr>mip_Parameters := configStr\<rparr>), None)
                           else Returns (None, None)))))"

definition ParamsNeedUpdate ::
  "env \<Rightarrow> DBInstanceAttribute \<Rightarrow> RedisInstanceParameters \<Rightarrow>
     (ModifyInstanceParameterRequest option \<times> go_error option) go_result" where
  "ParamsNeedUpdate E attr p = calculateParamDiff E attr p"

section \<open>The controller\<close>

text \<open>
  The managed resource. Its external name is the annotation
  \<open>crossplane.io/external-name\<close>, read by \<open>meta.GetExternalName\<close> (a missing annotation
  reads as the empty string). Of the conditions only the one of type \<open>Ready\<close> is set
  by this controller (\<open>xpv1.Available()\<close>, \<open>Creating()\<close>, \<open>Deleting()\<close>,
  \<open>Unavailable()\<close>); its time stamp is left out.
\<close>

datatype condition = Available | Creating | Deleting | Unavailable

record RedisInstance =
  ri_Name :: string
  ri_Annotations :: "string \<rightharpoonup> string"
  ri_ForProvider :: RedisInstanceParameters
  ri_AtProvider :: RedisInstanceObservation
  ri_Ready :: "condition option"

text \<open>A \<open>resource.Managed\<close> is a \<open>*v1alpha1.RedisInstance\<close> or something else (in the
  tests: nil).\<close>

datatype managed = RedisInstanceManaged RedisInstance | OtherManaged

definition AnnotationKeyExternalName :: string where
  "AnnotationKeyExternalName = ''crossplane.io/external-name''"

definition GetExternalName :: "RedisInstance \<Rightarrow> string" where
  "GetExternalName cr =
     (case ri_Annotations cr AnnotationKeyExternalName of None \<Rightarrow> [] | Some v \<Rightarrow> v)"

definition SetConditions :: "RedisInstance \<Rightarrow> condition \<Rightarrow> RedisInstance" where
  "SetConditions cr c = cr\<lparr>ri_Ready := Some c\<rparr>"

definition RedisInstanceStateRunning :: string where
  "RedisInstanceStateRunning = ''Normal''"

definition RedisInstanceStateCreating :: string where
  "RedisInstanceStateCreating = ''Creating''"

definition RedisInstanceStateDeleting :: string where
  "RedisInstanceStateDeleting = ''Flushing''"

definition errNotInstance :: string where
  "errNotInstance = ''managed resource is not an instance custom resource''"

definition errDeleteFailed :: string where
  "errDeleteFailed = ''cannot delete redis instance''"

definition errDescribeFailed :: string where
  "errDescribeFailed = ''cannot describe redis instance''"

text \<open>
  \<open>managed.ExternalObservation\<close>: the fields this controller sets; a nil
  \<open>ConnectionDetails\<close> is \<open>None\<close>.
\<close>

record ExternalObservation =
  eo_ResourceExists :: bool
  eo_ResourceUpToDate :: bool
  eo_ConnectionDetails :: "ConnectionDetails option"

definition zero_ExternalObservation :: ExternalObservation where
  "zero_ExternalObservation =
     \<lparr>eo_ResourceExists = False, eo_ResourceUpToDate = False, eo_ConnectionDetails = None\<rparr>"

text \<open>The part of the interface \<open>redis.Client\<close> that \<open>Observe\<close> and \<open>Delete\<close> call.\<close>

record Client =
  cl_DescribeInstance ::
    "string \<Rightarrow> world \<Rightarrow>
       world \<times> DBInstanceAttribute option \<times> RedisConnection option \<times> go_error option"
  cl_DeleteInstance :: "string \<Rightarrow> world \<Rightarrow> world \<times> go_error option"

definition client :: "env \<Rightarrow> Client" where
  "client E = \<lparr>cl_DescribeInstance = DescribeInstance E, cl_DeleteInstance = DeleteInstance E\<rparr>"

text \<open>\<open>resource.Ignore(is, err)\<close> of the controller framework.\<close>

definition resource_Ignore ::
  "(world \<Rightarrow> go_error option \<Rightarrow> world \<times> bool) \<Rightarrow> world \<Rightarrow> go_error option \<Rightarrow>
     world \<times> go_error option" where
  "resource_Ignore is w err = (let (w', ignored) = is w err in (w', if ignored then None else err))"

text \<open>
  \<open>Observe\<close>. The result holds the world, the resource as the call leaves it, and the two
  values returned. On a describe error the source evaluates
  \<open>resource.Ignore(redis.IsErrorNotFound, err)\<close> twice, once for \<open>fmt.Print\<close> (whose
  output is left out) and once for the result.
\<close>

definition Observe ::
  "Client \<Rightarrow> world \<Rightarrow> managed \<Rightarrow>
     (world \<times> managed \<times> ExternalObservation \<times> go_error option) go_result" where
  "Observe e w mg =
     (case mg of
        OtherManaged \<Rightarrow>
          (let (w1, err) = errors_New w errNotInstance
           in Returns (w1, mg, zero_ExternalObservation, Some err))
      | RedisInstanceManaged cr \<Rightarrow>
          (let instanceId = GetExternalName cr
           in if instanceId = []
              then Returns (w, mg, zero_ExternalObservation\<lparr>eo_ResourceExists := False\<rparr>, None)
              else
                (let (w1, resp, conn, err) =
                       cl_DescribeInstance e instanceId (emit (ClientDescribeInstance instanceId) w)
                 in if err \<noteq> None
                    then
                      (let (w2, printed) = resource_Ignore IsErrorNotFound w1 err;
                           (w3, ignored) = resource_Ignore IsErrorNotFound w2 err
                       in Returns (w3, mg, zero_ExternalObservation,
                                   errors_Wrap ignored errDescribeFailed))
                    else
                      (case resp of
                         None \<Rightarrow> Panics
                       | Some attr \<Rightarrow>
                           (let cr = cr\<lparr>ri_AtProvider := GenerateObservation attr\<rparr>;
                                status = obs_InstanceStatus (ri_AtProvider cr);
                                cr = (if status = RedisInstanceStateRunning
                                      then SetConditions cr Available
                                      else if status = RedisInstanceStateCreating
                                      then SetConditions cr Creating
                                      else if status = RedisInstanceStateDeleting
                                      then SetConditions cr Deleting
                                      else SetConditions cr Unavailable)
                            in case getConnectionDetails conn of
                                 Panics \<Rightarrow> Panics
                               | Returns cd \<Rightarrow>
                                   Returns (w1, RedisInstanceManaged cr,
                                            \<lparr>eo_ResourceExists = True,
                                             eo_ResourceUpToDate = True,
                                             eo_ConnectionDetails = Some cd\<rparr>, None))))))"

definition Delete ::
  "Client \<Rightarrow> world \<Rightarrow> managed \<Rightarrow> world \<times> managed \<times> go_error option" where
  "Delete e w mg =
     (case mg of
        OtherManaged \<Rightarrow>
          (let (w1, err) = errors_New w errNotInstance in (w1, mg, Some err))
      | RedisInstanceManaged cr \<Rightarrow>
          (let cr = SetConditions cr Deleting;
               instanceId = GetExternalName cr;
               (w1, err) = cl_DeleteInstance e instanceId (emit (ClientDeleteInstance instanceId) w);
               (w2, ignored) = resource_Ignore IsErrorNotFound w1 err
           in (w2, RedisInstanceManaged cr, errors_Wrap ignored errDeleteFailed)))"

section \<open>Zero values and test doubles\<close>

text \<open>The Go zero values \<open>v1alpha1.RedisInstanceParameters{}\<close> and
  \<open>aliredis.DBInstanceAttribute{}\<close>, from which concrete inputs are written.\<close>

definition zero_RedisInstanceParameters :: RedisInstanceParameters where
  "zero_RedisInstanceParameters =
     \<lparr>p_RegionID = [], p_Token = [], p_InstanceName = [], p_Password = [], p_Capacity = None,
      p_InstanceClass = [], p_ZoneID = [], p_ChargeType = [], p_NodeType = [],
      p_NetworkType = [], p_VpcID = [], p_VSwitchID = [], p_Period = [], p_BusinessInfo = [],
      p_CouponNo = [], p_SrcDBInstanceId = [], p_BackupId = [], p_InstanceType = [],
      p_EngineVersion = [], p_PrivateIpAddress = [], p_AutoUseCoupon = [], p_AutoRenew = [],
      p_AutoRenewPeriod = [], p_ResourceGroupId = [], p_RestoreTime = [],
      p_DedicatedHostGroupId = [], p_ShardCount = None, p_ReadOnlyCount = None,
      p_GlobalInstanceId = [], p_GlobalInstance = False, p_SecondaryZoneID = [], p_Port = None,
      p_GlobalSecurityGroupIds = [], p_Appendonly = [], p_ConnectionStringPrefix = [],
      p_ParamGroupId = [], p_Tag = [], p_ClusterBackupId = [], p_EffectiveTime = [],
      p_SecurityIps = [], p_ParameterConfig = []\<rparr>"

definition zero_DBInstanceAttribute :: DBInstanceAttribute where
  "zero_DBInstanceAttribute =
     \<lparr>attr_InstanceId = [], attr_InstanceStatus = [], attr_ConnectionDomain = [], attr_Port = 0,
      attr_ArchitectureType = [], attr_InstanceClass = [], attr_RealInstanceClass = [],
      attr_ReadOnlyCount = 0, attr_SecurityIPList = [], attr_Config = []\<rparr>"

definition zero_RedisInstance :: RedisInstance where
  "zero_RedisInstance =
     \<lparr>ri_Name = [], ri_Annotations = Map.empty, ri_ForProvider = zero_RedisInstanceParameters,
      ri_AtProvider = \<lparr>obs_InstanceStatus = [], obs_ConnectionReady = False,
                       obs_ConnectionDomain = [], obs_Port = []\<rparr>,
      ri_Ready = None\<rparr>"

text \<open>\<open>fakeRedisClient\<close> of \<open>redisinstance_test.go\<close>, with the constants of that file.\<close>

definition testId :: string where
  "testId = ''testId''"

definition testAddress :: string where
  "testAddress = ''172.0.0.1''"

definition testPort :: string where
  "testPort = ''8080''"

definition testPortInt :: int where
  "testPortInt = 8080"

definition fakeRedisClient :: Client where
  "fakeRedisClient =
     \<lparr>cl_DescribeInstance = (\<lambda>instanceId w.
        if instanceId \<noteq> testId
        then (let (w1, err) = errors_New w ''DescribeRedisInstance: client doesn't work''
              in (w1, None, None, Some err))
        else (w,
              Some (zero_DBInstanceAttribute
                     \<lparr>attr_InstanceId := instanceId,
                      attr_InstanceStatus := RedisInstanceStateRunning,
                      attr_ConnectionDomain := testAddress,
                      attr_Port := testPortInt\<rparr>),
              Some \<lparr>rc_Username = [], rc_Password = [], rc_ConnectionDomain = testAddress,
                    rc_Port = testPort\<rparr>,
              None)),
      cl_DeleteInstance = (\<lambda>instanceId w.
        if instanceId \<noteq> testId
        then (let (w1, err) = errors_New w ''DeleteRedisInstance: client doesn't work''
              in (w1, Some err))
        else (w, None))\<rparr>"

text \<open>
  Stand-ins for the outside, for evaluating the client on concrete inputs: a vendor whose
  calls succeed, a fixed generated password, and JSON functions for maps that answer as
  Go's \<open>encoding/json\<close> does on the texts used below.
\<close>

definition table_Unmarshal_map :: "string \<Rightarrow> go_error + go_map" where
  \<open>table_Unmarshal_map text =
     (if text = ''{"maxmemory-policy":"volatile-lru","timeout":"0"}''
      then Inr (Some [(''maxmemory-policy'', ''volatile-lru''), (''timeout'', ''0'')])
      else if text = ''{"maxmemory-policy":"allkeys-lru"}''
      then Inr (Some [(''maxmemory-policy'', ''allkeys-lru'')])
      else if text = ''{"hash-max-ziplist-entries":512}''
      then Inl (Foreign ''json: cannot unmarshal number into Go value of type string'')
      else if text = ''null'' then Inr None
      else Inl (Foreign ''invalid character''))\<close>

definition two_key_Marshal_map :: "(string \<rightharpoonup> string) option \<Rightarrow> go_error + string" where
  \<open>two_key_Marshal_map m =
     (case m of
        None \<Rightarrow> Inr ''null''
      | Some f \<Rightarrow>
          (case (f ''maxmemory-policy'', f ''timeout'') of
             (Some a, Some b) \<Rightarrow>
               Inr (''{"maxmemory-policy":"'' @ a @ ''","timeout":"'' @ b @ ''"}'')
           | _ \<Rightarrow> Inl (Foreign ''json: unsupported value'')))\<close>

definition test_env :: env where
  "test_env =
     \<lparr>sdk_DescribeInstanceAttribute = (\<lambda>request. Inr []),
      sdk_CreateInstance = (\<lambda>request.
        Inr \<lparr>resp_InstanceId = ''r-bp1'',
             resp_ConnectionDomain = ''r-bp1.redis.rds.aliyuncs.com'',
             resp_Port = 6379\<rparr>),
      sdk_DeleteInstance = (\<lambda>request. None),
      password_Generate = Inr ''k9Zq4TmW2xLc7RbN8sVd5HyG3Jf'',
      json_object_strings = (\<lambda>body. None),
      json_Unmarshal_map = table_Unmarshal_map,
      json_Marshal_map = two_key_Marshal_map\<rparr>"

text \<open>A server error of the vendor whose message quotes its request ID.\<close>

definition throttled :: ServerError where
  "throttled =
     \<lparr>se_httpStatus = 400, se_requestId = ''R1'', se_hostId = ''r-kvstore.aliyuncs.com'',
      se_errorCode = ''Throttling'', se_recommend = [], se_message = ''request R1 failed'',
      se_comment = []\<rparr>"

definition world0 :: world where
  "world0 = \<lparr>next_addr = 0, trace = []\<rparr>"

text \<open>The create requests handed to the vendor, read off a trace.\<close>

fun created_requests :: "event list \<Rightarrow> CreateInstanceRequest list" where
  "created_requests [] = []"
| "created_requests (SdkCreateInstance request # evs) = request # created_requests evs"
| "created_requests (ev # evs) = created_requests evs"

text \<open>Concrete inputs: a parameter set with two tags; an instance whose parameter
  configuration names an eviction policy and a timeout, and a parameter set that asks for
  another policy; the resource of the delete test "Managed resource is already in a delete
  state": observed as deleting, with no external name.\<close>

definition two_tags :: RedisInstanceParameters where
  "two_tags = zero_RedisInstanceParameters
     \<lparr>p_Tag := [\<lparr>tag_Key = ''env'', tag_Value = ''prod''\<rparr>,
                \<lparr>tag_Key = ''team'', tag_Value = ''db''\<rparr>]\<rparr>"

definition volatile_attr :: DBInstanceAttribute where
  \<open>volatile_attr = zero_DBInstanceAttribute
     \<lparr>attr_Config := ''{"maxmemory-policy":"volatile-lru","timeout":"0"}''\<rparr>\<close>

definition allkeys_params :: RedisInstanceParameters where
  \<open>allkeys_params = zero_RedisInstanceParameters
     \<lparr>p_ParameterConfig := ''{"maxmemory-policy":"allkeys-lru"}''\<rparr>\<close>

text \<open>The resource of the delete test "Managed resource is already in a delete state" as
  first written: no annotations, so no external name, and the observed status deleting.\<close>

definition deleting_instance :: RedisInstance where
  "deleting_instance = zero_RedisInstance
     \<lparr>ri_AtProvider := \<lparr>obs_InstanceStatus = RedisInstanceStateDeleting,
                        obs_ConnectionReady = False, obs_ConnectionDomain = [],
                        obs_Port = []\<rparr>\<rparr>"

section \<open>Verified properties\<close>

subsection \<open>Helper facts\<close>

lemmas key_defs =
  ResourceCredentialsSecretUserKey_def ResourceCredentialsSecretPasswordKey_def
  ResourceCredentialsSecretEndpointKey_def ResourceCredentialsSecretPortKey_def

lemma strings_Contains_sublist: "strings_Contains s substr \<longleftrightarrow> sublist substr s"
  by (induction s) (auto simp: sublist_Cons_right)

lemma ips_loop_iff: "ips_loop ips desired \<longleftrightarrow> (\<exists>ip \<in> set ips. \<not> sublist ip desired)"
  by (induction ips) (auto simp: strings_Contains_sublist)

text \<open>The two forms of the security-IP detector decide alike.\<close>

lemma SecurityIpsNeedUpdate_flag_agrees:
  "SecurityIpsNeedUpdate_flag (attr_SecurityIPList attr) (p_SecurityIps p)
     \<longleftrightarrow> SecurityIpsNeedUpdate attr p \<noteq> None"
  by (simp add: SecurityIpsNeedUpdate_flag_def SecurityIpsNeedUpdate_def)

subsection \<open>Security-IP drift\<close>

text \<open>What holds of \<open>SecurityIpsNeedUpdate\<close>: a request that it returns carries the whole
  desired list and the mode \<open>Cover\<close>; with \<open>10.0.0.1,10.0.0.2\<close> configured, a desired list
  with both gives no request, and the desired list \<open>10.0.0.1\<close>, where \<open>10.0.0.2\<close> is
  missing, gives a \<open>Cover\<close> request.\<close>

lemma SecurityIpsNeedUpdate_request:
  "SecurityIpsNeedUpdate attr p = Some request \<Longrightarrow>
     request = \<lparr>msi_InstanceId = [], msi_SecurityIps = p_SecurityIps p,
                msi_ModifyMode = ''Cover''\<rparr>"
  by (auto simp: SecurityIpsNeedUpdate_def CreateModifySecurityIpsRequest_def
      DefaultIPModifyMode_def Let_def split: if_splits)

lemma SecurityIpsNeedUpdate_examples:
  "SecurityIpsNeedUpdate
     (zero_DBInstanceAttribute\<lparr>attr_SecurityIPList := ''10.0.0.1,10.0.0.2''\<rparr>)
     (zero_RedisInstanceParameters\<lparr>p_SecurityIps := ''10.0.0.1,10.0.0.2''\<rparr>) = None"
  "SecurityIpsNeedUpdate
     (zero_DBInstanceAttribute\<lparr>attr_SecurityIPList := ''10.0.0.1,10.0.0.2''\<rparr>)
     (zero_RedisInstanceParameters\<lparr>p_SecurityIps := ''10.0.0.1''\<rparr>)
   = Some \<lparr>msi_InstanceId = [], msi_SecurityIps = ''10.0.0.1'', msi_ModifyMode = ''Cover''\<rparr>"
  by (simp_all add: SecurityIpsNeedUpdate_def strings_Split_def zero_DBInstanceAttribute_def
      zero_RedisInstanceParameters_def CreateModifySecurityIpsRequest_def
      DefaultIPModifyMode_def)

lemma strings_Contains_empty: "strings_Contains s []"
  by (cases s) simp_all

text \<open>
  Claim C4 says that a request is produced exactly when some desired IP is absent from
  the configured list, and the comment of the function that it returns true if there
  are differences. The loop only walks the configured entries and looks each up in the
  desired text, so an IP that is added to the desired list is a difference it does not
  see: with \<open>10.0.0.1,10.0.0.2\<close> configured and \<open>10.0.0.1,10.0.0.2,10.0.0.3\<close> desired, the
  desired list is not empty, the desired IP \<open>10.0.0.3\<close> is absent from the configured
  list, and no request is produced. With nothing configured no desired list ever gives a
  request, as the one empty entry that \<open>strings.Split\<close> returns occurs in every string.
\<close>

theorem SecurityIpsNeedUpdate_misses_added_ip:
  "p_SecurityIps (zero_RedisInstanceParameters
                   \<lparr>p_SecurityIps := ''10.0.0.1,10.0.0.2,10.0.0.3''\<rparr>) \<noteq> []
   \<and> ''10.0.0.3'' \<in> set (strings_Split (p_SecurityIps (zero_RedisInstanceParameters
                   \<lparr>p_SecurityIps := ''10.0.0.1,10.0.0.2,10.0.0.3''\<rparr>)) CHR '','')
   \<and> ''10.0.0.3'' \<notin> set (strings_Split (attr_SecurityIPList (zero_DBInstanceAttribute
                   \<lparr>attr_SecurityIPList := ''10.0.0.1,10.0.0.2''\<rparr>)) CHR '','')
   \<and> SecurityIpsNeedUpdate
         (zero_DBInstanceAttribute\<lparr>attr_SecurityIPList := ''10.0.0.1,10.0.0.2''\<rparr>)
         (zero_RedisInstanceParameters\<lparr>p_SecurityIps := ''10.0.0.1,10.0.0.2,10.0.0.3''\<rparr>)
       = None
   \<and> SecurityIpsNeedUpdate (attr\<lparr>attr_SecurityIPList := []\<rparr>) p = None"
  by (simp add: SecurityIpsNeedUpdate_def strings_Split_def zero_DBInstanceAttribute_def
      zero_RedisInstanceParameters_def strings_Contains_empty)

subsection \<open>Connection details\<close>

text \<open>
  Claim C6: for every \<open>RedisConnection\<close> value, \<open>getConnectionDetails\<close> returns a mapping
  whose keys are among \<open>username\<close>, \<open>password\<close>, \<open>endpoint\<close>, \<open>port\<close>, and each of the four
  is present if and only if the field it stands for is a non-empty string, with that
  field as its value. A user name \<open>u1\<close> with nothing else gives exactly
  \<open>{username: u1}\<close>; four non-empty fields give the four keys.
\<close>

theorem getConnectionDetails_keys:
  "(\<exists>cd. getConnectionDetails (Some c) = Returns cd
      \<and> dom cd \<subseteq> {''username'', ''password'', ''endpoint'', ''port''}
      \<and> cd ''username'' = (if rc_Username c = [] then None else Some (rc_Username c))
      \<and> cd ''password'' = (if rc_Password c = [] then None else Some (rc_Password c))
      \<and> cd ''endpoint'' =
          (if rc_ConnectionDomain c = [] then None else Some (rc_ConnectionDomain c))
      \<and> cd ''port'' = (if rc_Port c = [] then None else Some (rc_Port c)))
   \<and> getConnectionDetails
        (Some \<lparr>rc_Username = ''u1'', rc_Password = [], rc_ConnectionDomain = [], rc_Port = []\<rparr>)
      = Returns [''username'' \<mapsto> ''u1'']
   \<and> getConnectionDetails
        (Some \<lparr>rc_Username = ''u1'', rc_Password = ''p1'', rc_ConnectionDomain = ''1.2.3.4'',
               rc_Port = ''8080''\<rparr>)
      = Returns [''username'' \<mapsto> ''u1'', ''password'' \<mapsto> ''p1'', ''endpoint'' \<mapsto> ''1.2.3.4'',
                 ''port'' \<mapsto> ''8080'']"
  by (simp add: getConnectionDetails_def key_defs dom_def subset_iff)

subsection \<open>Instance class and replica count drift\<close>

text \<open>
  Claim C8: \<open>SpecsNeedUpdate\<close> compares the desired instance class with
  \<open>RealInstanceClass\<close> when the architecture type is \<open>cluster\<close> and with \<open>InstanceClass\<close>
  otherwise. When they differ the request returned carries the desired class and no
  replica count (and the effective time of the parameters, which is no change of the
  instance); only when they agree is the read-only replica count compared, and a request
  with the new count alone is returned when a desired count is given and differs.
  Otherwise nothing is returned.
\<close>

theorem SpecsNeedUpdate_class_first:
  "SpecsNeedUpdate attr p =
     (let current = (if attr_ArchitectureType attr = ''cluster''
                     then attr_RealInstanceClass attr else attr_InstanceClass attr)
      in if current \<noteq> p_InstanceClass p
         then Some \<lparr>mis_InstanceId = [], mis_EffectiveTime = p_EffectiveTime p,
                    mis_InstanceClass = p_InstanceClass p, mis_ReadOnlyCount = []\<rparr>
         else (case p_ReadOnlyCount p of
                 None \<Rightarrow> None
               | Some n \<Rightarrow>
                   if attr_ReadOnlyCount attr = n then None
                   else Some \<lparr>mis_InstanceId = [], mis_EffectiveTime = p_EffectiveTime p,
                              mis_InstanceClass = [], mis_ReadOnlyCount = strconv_Itoa n\<rparr>))"
  by (simp add: SpecsNeedUpdate_def calculateSpecDiff_def CreateModifyInstanceSpecRequest_def
      RedisArchTypeCluster_def requests_NewInteger_def Let_def split: option.splits)


subsection \<open>Not-found errors\<close>

lemma errors_Is_fresh: "allocated n e \<Longrightarrow> \<not> errors_Is e (Fundamental n msg)"
  by (induction e) auto

lemma IsErrorNotFound_allocated:
  "allocated (next_addr w) e \<Longrightarrow>
     snd (IsErrorNotFound w (Some e)) =
       (\<exists>srv. errors_As_ServerError e = Some srv \<and> se_errorCode srv = errInstanceNotFoundCode)"
  by (auto simp: IsErrorNotFound_def errors_New_def errors_Is_fresh split: option.splits)

text \<open>
  Claim C9: \<open>IsErrorNotFound\<close> answers true only for an error in which \<open>errors.As\<close> finds
  a server error of the SDK with the code \<open>InvalidInstanceId.NotFound\<close> (the error itself
  or, as \<open>errors.As\<close> unwraps, its cause); for an error in which it finds none, and for
  nil, the answer is false. That holds for every error whose \<open>errors.New\<close> values exist
  when the call is made, since the value the call compares with is made afterwards. The
  error that \<open>DescribeInstance\<close> returns for a response without instances is such a fresh
  \<open>InstanceNotFound\<close> value, and \<open>IsErrorNotFound\<close> answers false for it.
\<close>

theorem IsErrorNotFound_server_code_only:
  assumes "allocated (next_addr w) e"
  shows "snd (IsErrorNotFound w (Some e)) =
           (\<exists>srv. errors_As_ServerError e = Some srv
                  \<and> se_errorCode srv = ''InvalidInstanceId.NotFound'')
         \<and> snd (IsErrorNotFound w None) = False
         \<and> (sdk_DescribeInstanceAttribute E
               \<lparr>dia_Scheme = ''https'', dia_InstanceId = instanceId\<rparr> = Inr []
              \<longrightarrow> (\<exists>w'. DescribeInstance E instanceId w =
                          (w', None, None, Some (Fundamental (next_addr w) ''InstanceNotFound''))
                     \<and> errors_As_ServerError (Fundamental (next_addr w) ''InstanceNotFound'')
                         = None
                     \<and> snd (IsErrorNotFound w'
                              (Some (Fundamental (next_addr w) ''InstanceNotFound''))) = False))"
proof -
  have by_code: "snd (IsErrorNotFound w (Some e)) =
           (\<exists>srv. errors_As_ServerError e = Some srv
                  \<and> se_errorCode srv = ''InvalidInstanceId.NotFound'')"
    using IsErrorNotFound_allocated [OF assms] by (simp add: errInstanceNotFoundCode_def)
  have nil: "snd (IsErrorNotFound w None) = False"
    by (simp add: IsErrorNotFound_def)
  have describe: "sdk_DescribeInstanceAttribute E
               \<lparr>dia_Scheme = ''https'', dia_InstanceId = instanceId\<rparr> = Inr []
              \<longrightarrow> (\<exists>w'. DescribeInstance E instanceId w =
                          (w', None, None, Some (Fundamental (next_addr w) ''InstanceNotFound''))
                     \<and> errors_As_ServerError (Fundamental (next_addr w) ''InstanceNotFound'')
                         = None
                     \<and> snd (IsErrorNotFound w'
                              (Some (Fundamental (next_addr w) ''InstanceNotFound''))) = False)"
    by (simp add: DescribeInstance_def CreateDescribeInstanceAttributeRequest_def
        HTTPSScheme_def errors_New_def emit_def errInstanceNotFound_def IsErrorNotFound_def)
  from by_code nil describe show ?thesis by blast
qed

theorem IsErrorNotFound_server_code_only_witness:
  "allocated (next_addr world0)
     (Wrapped (ServerErr (throttled\<lparr>se_errorCode := ''InvalidInstanceId.NotFound''\<rparr>))
        ''cannot describe instance attributes'')
   \<and> snd (IsErrorNotFound world0
        (Some (Wrapped (ServerErr (throttled\<lparr>se_errorCode := ''InvalidInstanceId.NotFound''\<rparr>))
                 ''cannot describe instance attributes'')))
   \<and> sdk_DescribeInstanceAttribute test_env
        \<lparr>dia_Scheme = ''https'', dia_InstanceId = ''r-bp1''\<rparr> = Inr []
   \<and> (\<exists>w'. DescribeInstance test_env ''r-bp1'' world0 =
              (w', None, None, Some (Fundamental 0 ''InstanceNotFound''))
         \<and> snd (IsErrorNotFound w' (Some (Fundamental 0 ''InstanceNotFound''))) = False)"
  using IsErrorNotFound_server_code_only
    [of world0 "Wrapped (ServerErr (throttled\<lparr>se_errorCode := ''InvalidInstanceId.NotFound''\<rparr>))
                  ''cannot describe instance attributes''" test_env "''r-bp1''"]
  by (simp add: world0_def test_env_def throttled_def)

subsection \<open>Reading back what \<open>json.Marshal\<close> wrote\<close>

text \<open>
  The text that \<open>json.Marshal\<close> writes for a \<open>CleanedServerError\<close> reads back as its five
  members, every string with its invalid bytes replaced (\<open>flat_json_object_cleaned\<close>).
  On the way: an encoding found at the head of a string is found there whatever follows
  it; a string as written, read up to its closing quote, is \<open>coerce_utf8\<close> of the
  string (\<open>unquote_go_escape\<close>); valid UTF-8 is left as it is (\<open>coerce_utf8_valid\<close>).
\<close>

lemma cont_bt: "cont (bt s i) \<Longrightarrow> i < length s"
  by (cases "i < length s") (simp_all add: bt_def cont_def)

lemma two_bytes_length: "two_bytes s \<Longrightarrow> 2 \<le> length s"
  using cont_bt [of s 1] by (simp add: two_bytes_def)

lemma three_bytes_length: "three_bytes s \<Longrightarrow> 3 \<le> length s"
  using cont_bt [of s 2] by (simp add: three_bytes_def)

lemma four_bytes_length: "four_bytes s \<Longrightarrow> 4 \<le> length s"
  using cont_bt [of s 3] by (simp add: four_bytes_def)

lemma rune_len_le: "rune_len s \<le> length s"
  using two_bytes_length [of s] three_bytes_length [of s] four_bytes_length [of s]
  by (simp add: rune_len_def)

lemma bt_take_append: "i < n \<Longrightarrow> n \<le> length s \<Longrightarrow> bt (take n s @ t) i = bt s i"
  by (simp add: bt_def nth_append)

lemma two_bytes_take: "n \<le> length s \<Longrightarrow> 2 \<le> n \<Longrightarrow> two_bytes (take n s @ t) = two_bytes s"
  by (simp add: two_bytes_def bt_take_append)

lemma three_bytes_take: "n \<le> length s \<Longrightarrow> 3 \<le> n \<Longrightarrow> three_bytes (take n s @ t) = three_bytes s"
  by (simp add: three_bytes_def bt_take_append)

lemma four_bytes_take: "n \<le> length s \<Longrightarrow> 4 \<le> n \<Longrightarrow> four_bytes (take n s @ t) = four_bytes s"
  by (simp add: four_bytes_def bt_take_append)

lemma lead_exclusive:
  "two_bytes s \<Longrightarrow> two_bytes (take 2 s @ t)"
  "\<not> two_bytes s \<Longrightarrow> three_bytes s \<Longrightarrow> \<not> two_bytes (take 3 s @ t) \<and> three_bytes (take 3 s @ t)"
  "\<not> two_bytes s \<Longrightarrow> \<not> three_bytes s \<Longrightarrow> four_bytes s \<Longrightarrow>
     \<not> two_bytes (take 4 s @ t) \<and> \<not> three_bytes (take 4 s @ t) \<and> four_bytes (take 4 s @ t)"
proof -
  show "two_bytes s \<Longrightarrow> two_bytes (take 2 s @ t)"
    using two_bytes_length [of s] by (simp add: two_bytes_take)
  show "\<not> two_bytes s \<Longrightarrow> three_bytes s \<Longrightarrow> \<not> two_bytes (take 3 s @ t) \<and> three_bytes (take 3 s @ t)"
    using three_bytes_length [of s] by (simp add: two_bytes_take three_bytes_take)
  show "\<not> two_bytes s \<Longrightarrow> \<not> three_bytes s \<Longrightarrow> four_bytes s \<Longrightarrow>
     \<not> two_bytes (take 4 s @ t) \<and> \<not> three_bytes (take 4 s @ t) \<and> four_bytes (take 4 s @ t)"
    using four_bytes_length [of s] by (simp add: two_bytes_take three_bytes_take four_bytes_take)
qed

lemma rune_len_take: "rune_len s \<noteq> 0 \<Longrightarrow> rune_len (take (rune_len s) s @ t) = rune_len s"
  using lead_exclusive [of s t] by (auto simp: rune_len_def split: if_splits)

lemma hex_value_digit: "d < 16 \<Longrightarrow> hex_value (hex_digit d) = Some d"
proof -
  assume "d < 16"
  then have "d = 0 \<or> d = 1 \<or> d = 2 \<or> d = 3 \<or> d = 4 \<or> d = 5 \<or> d = 6 \<or> d = 7 \<or> d = 8
    \<or> d = 9 \<or> d = 10 \<or> d = 11 \<or> d = 12 \<or> d = 13 \<or> d = 14 \<or> d = 15" by arith
  then show ?thesis
    by (elim disjE) (simp_all add: hex_value_def hex_digit_def)
qed

lemma read_escape_ascii:
  assumes "(of_char c :: nat) < 128"
  shows "\<exists>e. ascii_escape c = backslash # e \<and> read_escape (e @ t) = Some ([c], t)"
proof -
  let ?b = "of_char c :: nat"
  have hi: "hex_value (hex_digit (?b div 16)) = Some (?b div 16)"
    using assms by (intro hex_value_digit) simp
  have lo: "hex_value (hex_digit (?b mod 16)) = Some (?b mod 16)"
    by (intro hex_value_digit) simp
  have zero: "hex_value CHR ''0'' = Some 0" by (simp add: hex_value_def)
  have val: "((0 * 16 + 0) * 16 + ?b div 16) * 16 + ?b mod 16 = ?b" by simp
  have enc: "utf8_encode ?b = [c]" using assms by (simp add: utf8_encode_def)
  have u: "read_escape (CHR ''u'' # CHR ''0'' # CHR ''0'' # hex_digit (?b div 16)
                          # hex_digit (?b mod 16) # t) = Some ([c], t)"
    using assms by (simp add: read_escape_def hi lo zero enc quote_char_def backslash_def)
  show ?thesis
    using u by (auto simp: ascii_escape_def read_escape_def quote_char_def backslash_def)
qed

lemma read_escape_replacement: "read_escape (''ufffd'' @ t) = Some (replacement_char, t)"
  by (simp add: read_escape_def hex_value_def utf8_encode_def replacement_char_def
      quote_char_def backslash_def char_of_eq_iff)

lemma read_escape_line: "read_escape (''u2028'' @ t) = Some (line_separator, t)"
  by (simp add: read_escape_def hex_value_def utf8_encode_def line_separator_def
      quote_char_def backslash_def char_of_eq_iff)

lemma read_escape_paragraph: "read_escape (''u2029'' @ t) = Some (paragraph_separator, t)"
  by (simp add: read_escape_def hex_value_def utf8_encode_def paragraph_separator_def
      quote_char_def backslash_def char_of_eq_iff)

lemma unquote_escape:
  "read_escape cs = Some (bytes, rest) \<Longrightarrow> unquote_body rest = Some (v, r) \<Longrightarrow>
     unquote_body (backslash # cs) = Some (bytes @ v, r)"
  by (simp add: unquote_body.simps quote_char_def backslash_def)

lemma unquote_safe:
  "html_safe c \<Longrightarrow> unquote_body t = Some (v, r) \<Longrightarrow> unquote_body (c # t) = Some (c # v, r)"
  by (simp add: unquote_body.simps html_safe_def)

lemma high_not_special:
  "\<not> (of_char c :: nat) < 128 \<Longrightarrow> c \<noteq> quote_char \<and> c \<noteq> backslash \<and> \<not> (of_char c :: nat) < 32"
  by (auto simp: quote_char_def backslash_def)

lemma unquote_invalid:
  "\<not> (of_char c :: nat) < 128 \<Longrightarrow> rune_len (c # t) = 0 \<Longrightarrow> unquote_body t = Some (v, r) \<Longrightarrow>
     unquote_body (c # t) = Some (replacement_char @ v, r)"
  using high_not_special [of c] by (simp add: unquote_body.simps)

lemma unquote_rune:
  assumes high: "\<not> (of_char c :: nat) < 128" and len: "rune_len (c # cs) \<noteq> 0"
    and rest: "unquote_body t = Some (v, r)"
  shows "unquote_body (take (rune_len (c # cs)) (c # cs) @ t)
           = Some (take (rune_len (c # cs)) (c # cs) @ v, r)"
proof -
  let ?n = "rune_len (c # cs)"
  from rune_len_le [of "c # cs"] have le: "?n \<le> length (c # cs)" .
  from len obtain m where n: "?n = Suc m" by (cases ?n) auto
  have shape: "take ?n (c # cs) @ t = c # (take m cs @ t)" by (simp add: n)
  have same: "rune_len (c # (take m cs @ t)) = ?n"
    using rune_len_take [OF len, of t] by (simp add: shape)
  have dropped: "drop ?n (c # (take m cs @ t)) = t"
    using le by (simp add: n)
  have taken: "take ?n (c # (take m cs @ t)) = take ?n (c # cs)"
    using le by (simp add: n)
  have "unquote_body (c # (take m cs @ t)) = Some (take ?n (c # cs) @ v, r)"
    using high_not_special [OF high] high len rest
    by (subst unquote_body.simps) (simp add: same dropped taken)
  then show ?thesis by (simp only: shape)
qed

lemma unquote_go_escape:
  "unquote_body (go_escape s @ quote_char # rest) = Some (coerce_utf8 s, rest)"
proof (induction s rule: go_escape.induct)
  case 1
  show ?case by (simp add: go_escape.simps coerce_utf8.simps unquote_body.simps)
next
  case (2 c cs)
  let ?n = "rune_len (c # cs)"
  show ?case
  proof (cases "(of_char c :: nat) < 128")
    case True
    have co: "coerce_utf8 (c # cs) = c # coerce_utf8 cs"
      using True by (simp add: coerce_utf8.simps)
    show ?thesis
    proof (cases "html_safe c")
      case safe: True
      from "2.IH"(1) [OF True safe]
      have "unquote_body (go_escape cs @ quote_char # rest) = Some (coerce_utf8 cs, rest)" .
      from unquote_safe [OF safe this] True safe co show ?thesis
        by (simp add: go_escape.simps)
    next
      case unsafe: False
      from "2.IH"(2) [OF True unsafe]
      have ih: "unquote_body (go_escape cs @ quote_char # rest) = Some (coerce_utf8 cs, rest)" .
      from read_escape_ascii [OF True, of "go_escape cs @ quote_char # rest"]
      obtain e where e: "ascii_escape c = backslash # e"
        and re: "read_escape (e @ go_escape cs @ quote_char # rest)
                   = Some ([c], go_escape cs @ quote_char # rest)" by blast
      from unquote_escape [OF re ih] True unsafe co e show ?thesis
        by (simp add: go_escape.simps)
    qed
  next
    case high: False
    show ?thesis
    proof (cases "?n = 0")
      case invalid: True
      from "2.IH"(3) [OF high invalid]
      have ih: "unquote_body (go_escape cs @ quote_char # rest) = Some (coerce_utf8 cs, rest)" .
      have co: "coerce_utf8 (c # cs) = replacement_char @ coerce_utf8 cs"
        using high invalid by (simp add: coerce_utf8.simps)
      have ge: "go_escape (c # cs) = backslash # ''ufffd'' @ go_escape cs"
        using high invalid by (simp add: go_escape.simps)
      from unquote_escape [OF read_escape_replacement ih] show ?thesis
        by (simp add: ge co)
    next
      case valid: False
      have co: "coerce_utf8 (c # cs) = take ?n (c # cs) @ coerce_utf8 (drop ?n (c # cs))"
        using high valid by (simp add: coerce_utf8.simps)
      show ?thesis
      proof (cases "take ?n (c # cs) = line_separator")
        case line: True
        from "2.IH"(4) [OF high valid line]
        have ih: "unquote_body (go_escape (drop ?n (c # cs)) @ quote_char # rest)
                    = Some (coerce_utf8 (drop ?n (c # cs)), rest)" .
        have ge: "go_escape (c # cs) = backslash # ''u2028'' @ go_escape (drop ?n (c # cs))"
          using high valid line by (simp add: go_escape.simps)
        from unquote_escape [OF read_escape_line ih] show ?thesis
          by (simp add: ge co line)
      next
        case no_line: False
        show ?thesis
        proof (cases "take ?n (c # cs) = paragraph_separator")
          case par: True
          from "2.IH"(5) [OF high valid no_line par]
          have ih: "unquote_body (go_escape (drop ?n (c # cs)) @ quote_char # rest)
                      = Some (coerce_utf8 (drop ?n (c # cs)), rest)" .
          have ge: "go_escape (c # cs) = backslash # ''u2029'' @ go_escape (drop ?n (c # cs))"
            using high valid no_line par by (simp add: go_escape.simps)
          from unquote_escape [OF read_escape_paragraph ih] show ?thesis
            by (simp add: ge co par)
        next
          case no_par: False
          from "2.IH"(6) [OF high valid no_line no_par]
          have ih: "unquote_body (go_escape (drop ?n (c # cs)) @ quote_char # rest)
                      = Some (coerce_utf8 (drop ?n (c # cs)), rest)" .
          have ge: "go_escape (c # cs) = take ?n (c # cs) @ go_escape (drop ?n (c # cs))"
            using high valid no_line no_par by (simp add: go_escape.simps)
          from unquote_rune [OF high valid ih] show ?thesis
            by (simp add: ge co)
        qed
      qed
    qed
  qed
qed

lemma coerce_utf8_valid: "utf8_valid s \<Longrightarrow> coerce_utf8 s = s"
proof (induction s rule: utf8_valid.induct)
  case 1
  show ?case by (simp add: coerce_utf8.simps)
next
  case (2 c cs)
  show ?case
  proof (cases "(of_char c :: nat) < 128")
    case True
    with "2.prems" have "utf8_valid cs" by (simp add: utf8_valid.simps)
    with "2.IH"(1) [OF True] True show ?thesis by (simp add: coerce_utf8.simps)
  next
    case False
    with "2.prems" have len: "rune_len (c # cs) \<noteq> 0"
      and rest: "utf8_valid (drop (rune_len (c # cs)) (c # cs))"
      by (simp_all add: utf8_valid.simps split: if_splits)
    from "2.IH"(2) [OF False len rest]
    have "coerce_utf8 (drop (rune_len (c # cs)) (c # cs)) = drop (rune_len (c # cs)) (c # cs)" .
    with False len show ?thesis
      by (simp add: coerce_utf8.simps del: drop_Suc_Cons take_Suc_Cons)
  qed
qed


lemma digit_char_is_digit: "d < 10 \<Longrightarrow> is_digit (digit_char d)"
proof -
  assume "d < 10"
  then have "d = 0 \<or> d = 1 \<or> d = 2 \<or> d = 3 \<or> d = 4 \<or> d = 5 \<or> d = 6 \<or> d = 7 \<or> d = 8
    \<or> d = 9" by arith
  then show ?thesis by (elim disjE) (simp_all add: is_digit_def digit_char_def)
qed

lemma digit_char_nonzero: "d < 10 \<Longrightarrow> d \<noteq> 0 \<Longrightarrow> digit_char d \<noteq> CHR ''0''"
proof -
  assume "d < 10" "d \<noteq> 0"
  then have "d = 1 \<or> d = 2 \<or> d = 3 \<or> d = 4 \<or> d = 5 \<or> d = 6 \<or> d = 7 \<or> d = 8
    \<or> d = 9" by arith
  then show ?thesis by (elim disjE) (simp_all add: digit_char_def)
qed

lemma nat_digits_digits: "\<forall>ch \<in> set (nat_digits n). is_digit ch"
proof (induction n rule: nat_digits.induct)
  case (1 n)
  show ?case
  proof (cases "n < 10")
    case True
    then show ?thesis by (subst nat_digits.simps) (simp add: digit_char_is_digit)
  next
    case False
    with 1 show ?thesis by (subst nat_digits.simps) (simp add: digit_char_is_digit)
  qed
qed

lemma nat_digits_nonempty: "nat_digits n \<noteq> []"
  by (subst nat_digits.simps) simp

lemma nat_digits_hd: "n \<noteq> 0 \<Longrightarrow> hd (nat_digits n) \<noteq> CHR ''0''"
proof (induction n rule: nat_digits.induct)
  case (1 n)
  show ?case
  proof (cases "n < 10")
    case True
    with "1.prems" show ?thesis by (subst nat_digits.simps) (simp add: digit_char_nonzero)
  next
    case False
    then have "n div 10 \<noteq> 0" by simp
    from "1.IH" [OF False this] False show ?thesis
      by (subst nat_digits.simps) (simp add: nat_digits_nonempty)
  qed
qed

lemma nat_digits_single: "1 < length (nat_digits n) \<Longrightarrow> n \<noteq> 0"
  by (rule notI) (simp add: nat_digits.simps)

lemma skip_int_digits:
  assumes "\<not> is_digit ch"
  shows "skip_int (nat_digits n @ ch # rest) = Some (ch # rest)"
proof -
  let ?ds = "nat_digits n"
  obtain d ds where ds: "?ds = d # ds" using nat_digits_nonempty [of n] by (cases ?ds) auto
  have all: "\<And>x. x \<in> set ?ds \<Longrightarrow> is_digit x" using nat_digits_digits by blast
  then have "is_digit d" by (simp add: ds)
  then have not_minus: "d \<noteq> CHR ''-''" by (auto simp: is_digit_def)
  have tw: "takeWhile is_digit (?ds @ ch # rest) = ?ds"
    using all assms by (simp add: takeWhile_append2)
  have dw: "dropWhile is_digit (?ds @ ch # rest) = ch # rest"
    using all assms by (simp add: dropWhile_append2)
  have lead: "\<not> (hd ?ds = CHR ''0'' \<and> 1 < length ?ds)"
    using nat_digits_hd [of n] nat_digits_single [of n] by blast
  have start: "(case ?ds @ ch # rest of [] \<Rightarrow> ?ds @ ch # rest
                | c # r \<Rightarrow> if c = CHR ''-'' then r else ?ds @ ch # rest) = ?ds @ ch # rest"
    using not_minus by (simp add: ds)
  show ?thesis
    unfolding skip_int_def start Let_def tw dw using lead nat_digits_nonempty [of n] by simp
qed

lemma skip_int_minus:
  assumes "\<not> is_digit ch"
  shows "skip_int (CHR ''-'' # nat_digits n @ ch # rest) = Some (ch # rest)"
proof -
  let ?ds = "nat_digits n"
  have all: "\<And>x. x \<in> set ?ds \<Longrightarrow> is_digit x" using nat_digits_digits by blast
  have tw: "takeWhile is_digit (?ds @ ch # rest) = ?ds"
    using all assms by (simp add: takeWhile_append2)
  have dw: "dropWhile is_digit (?ds @ ch # rest) = ch # rest"
    using all assms by (simp add: dropWhile_append2)
  have lead: "\<not> (hd ?ds = CHR ''0'' \<and> 1 < length ?ds)"
    using nat_digits_hd [of n] nat_digits_single [of n] by blast
  show ?thesis
    unfolding skip_int_def Let_def using lead nat_digits_nonempty [of n] by (simp add: tw dw)
qed

lemma skip_int_Itoa:
  "\<not> is_digit ch \<Longrightarrow> skip_int (strconv_Itoa i @ ch # rest) = Some (ch # rest)"
  by (simp add: strconv_Itoa_def skip_int_digits skip_int_minus)

lemma Itoa_not_quote: "\<exists>d ds. strconv_Itoa i = d # ds \<and> d \<noteq> quote_char"
proof (cases "i < 0")
  case True
  then show ?thesis by (simp add: strconv_Itoa_def quote_char_def)
next
  case False
  obtain d ds where ds: "nat_digits (nat i) = d # ds"
    using nat_digits_nonempty [of "nat i"] by (cases "nat_digits (nat i)") auto
  with nat_digits_digits [of "nat i"] have "is_digit d" by simp
  then have "d \<noteq> quote_char" by (auto simp: is_digit_def quote_char_def)
  with ds False show ?thesis by (simp add: strconv_Itoa_def)
qed

lemma parse_value_string:
  "parse_value (json_string v @ rest) = Some (JsonString (coerce_utf8 v), rest)"
  by (simp add: parse_value_def json_string_def unquote_go_escape)

lemma parse_value_int:
  "\<not> is_digit ch \<Longrightarrow> parse_value (strconv_Itoa i @ ch # rest) = Some (JsonNumber, ch # rest)"
  using Itoa_not_quote [of i] skip_int_Itoa [of ch i rest]
  by (auto simp: parse_value_def)

lemma parse_members_more:
  assumes "parse_value (vt @ CHR '','' # tail_text) = Some (v, CHR '','' # tail_text)"
  shows "parse_members (json_string k @ CHR '':'' # vt @ CHR '','' # tail_text) =
           (case parse_members tail_text of
              None \<Rightarrow> None
            | Some ms \<Rightarrow> Some ((coerce_utf8 k, v) # ms))"
  using assms
  by (subst parse_members.simps) (simp add: json_string_def unquote_go_escape)

lemma parse_members_last:
  assumes "parse_value (vt @ ''}'') = Some (v, ''}'')"
  shows "parse_members (json_string k @ CHR '':'' # vt @ ''}'') = Some [(coerce_utf8 k, v)]"
  using assms
  by (subst parse_members.simps) (simp add: json_string_def unquote_go_escape)

lemma coerce_keys:
  "coerce_utf8 ''HttpStatus'' = ''HttpStatus''" "coerce_utf8 ''HostId'' = ''HostId''"
  "coerce_utf8 ''Code'' = ''Code''" "coerce_utf8 ''Message'' = ''Message''"
  "coerce_utf8 ''Comment'' = ''Comment''"
  by (simp_all add: coerce_utf8.simps)

lemma flat_json_object_cleaned:
  "json_Marshal_CleanedServerError c = Inr body \<Longrightarrow>
   flat_json_object body =
     Some [(''HttpStatus'', JsonNumber),
           (''HostId'', JsonString (coerce_utf8 (cse_HostId c))),
           (''Code'', JsonString (coerce_utf8 (cse_Code c))),
           (''Message'', JsonString (coerce_utf8 (cse_Message c))),
           (''Comment'', JsonString (coerce_utf8 (cse_Comment c)))]"
proof -
  assume "json_Marshal_CleanedServerError c = Inr body"
  then have body: "body = CHR ''{'' # (json_string ''HttpStatus'' @ CHR '':'' # strconv_Itoa (cse_HttpStatus c)
          @ CHR '','' # (json_string ''HostId'' @ CHR '':'' # json_string (cse_HostId c)
          @ CHR '','' # (json_string ''Code'' @ CHR '':'' # json_string (cse_Code c)
          @ CHR '','' # (json_string ''Message'' @ CHR '':'' # json_string (cse_Message c)
          @ CHR '','' # (json_string ''Comment'' @ CHR '':'' # json_string (cse_Comment c)
          @ ''}'')))))"
    by (simp add: json_Marshal_CleanedServerError_def)
  have m5: "parse_members (json_string ''Comment'' @ CHR '':'' # json_string (cse_Comment c) @ ''}'')
              = Some [(''Comment'', JsonString (coerce_utf8 (cse_Comment c)))]"
    by (simp add: parse_members_last parse_value_string coerce_keys)
  have m4: "parse_members (json_string ''Message'' @ CHR '':'' # json_string (cse_Message c)
          @ CHR '','' # (json_string ''Comment'' @ CHR '':'' # json_string (cse_Comment c) @ ''}''))
              = Some [(''Message'', JsonString (coerce_utf8 (cse_Message c))),
                      (''Comment'', JsonString (coerce_utf8 (cse_Comment c)))]"
    by (simp add: parse_members_more parse_value_string coerce_keys m5)
  have m3: "parse_members (json_string ''Code'' @ CHR '':'' # json_string (cse_Code c)
          @ CHR '','' # (json_string ''Message'' @ CHR '':'' # json_string (cse_Message c)
          @ CHR '','' # (json_string ''Comment'' @ CHR '':'' # json_string (cse_Comment c) @ ''}'')))
              = Some [(''Code'', JsonString (coerce_utf8 (cse_Code c))),
                      (''Message'', JsonString (coerce_utf8 (cse_Message c))),
                      (''Comment'', JsonString (coerce_utf8 (cse_Comment c)))]"
    by (simp add: parse_members_more parse_value_string coerce_keys m4)
  have m2: "parse_members (json_string ''HostId'' @ CHR '':'' # json_string (cse_HostId c)
          @ CHR '','' # (json_string ''Code'' @ CHR '':'' # json_string (cse_Code c)
          @ CHR '','' # (json_string ''Message'' @ CHR '':'' # json_string (cse_Message c)
          @ CHR '','' # (json_string ''Comment'' @ CHR '':'' # json_string (cse_Comment c) @ ''}''))))
              = Some [(''HostId'', JsonString (coerce_utf8 (cse_HostId c))),
                      (''Code'', JsonString (coerce_utf8 (cse_Code c))),
                      (''Message'', JsonString (coerce_utf8 (cse_Message c))),
                      (''Comment'', JsonString (coerce_utf8 (cse_Comment c)))]"
    by (simp add: parse_members_more parse_value_string coerce_keys m3)
  have comma: "\<not> is_digit CHR '',''" by (simp add: is_digit_def)
  have m1: "parse_members (json_string ''HttpStatus'' @ CHR '':'' # strconv_Itoa (cse_HttpStatus c)
          @ CHR '','' # (json_string ''HostId'' @ CHR '':'' # json_string (cse_HostId c)
          @ CHR '','' # (json_string ''Code'' @ CHR '':'' # json_string (cse_Code c)
          @ CHR '','' # (json_string ''Message'' @ CHR '':'' # json_string (cse_Message c)
          @ CHR '','' # (json_string ''Comment'' @ CHR '':'' # json_string (cse_Comment c) @ ''}'')))))
              = Some [(''HttpStatus'', JsonNumber),
                      (''HostId'', JsonString (coerce_utf8 (cse_HostId c))),
                      (''Code'', JsonString (coerce_utf8 (cse_Code c))),
                      (''Message'', JsonString (coerce_utf8 (cse_Message c))),
                      (''Comment'', JsonString (coerce_utf8 (cse_Comment c)))]"
    by (simp add: parse_members_more parse_value_int [OF comma] coerce_keys m2)
  show ?thesis
    unfolding body flat_json_object_def using m1 by (simp add: json_string_def quote_char_def)
qed

subsection \<open>Cleaning vendor errors\<close>

lemma string_members_cleaned:
  "string_members [(''HttpStatus'', JsonNumber), (''HostId'', JsonString h),
                   (''Code'', JsonString c), (''Message'', JsonString m),
                   (''Comment'', JsonString k)] =
     [''HostId'' \<mapsto> h, ''Code'' \<mapsto> c, ''Message'' \<mapsto> m, ''Comment'' \<mapsto> k]"
  by (rule ext) (simp add: string_members_def)

text \<open>What \<open>CleanError\<close> makes of a server error, for every error and every
  environment.\<close>

lemma CleanError_server_error:
  "CleanError E (Some (ServerErr e)) =
     Some (ServerErr (e\<lparr>se_requestId := [],
                        se_hostId := coerce_utf8 (se_hostId e),
                        se_errorCode := coerce_utf8 (se_errorCode e),
                        se_recommend := [],
                        se_message := coerce_utf8 (se_message e)\<rparr>))"
proof -
  let ?c = "\<lparr>cse_HttpStatus = se_httpStatus e, cse_HostId = se_hostId e,
             cse_Code = se_errorCode e, cse_Message = se_message e,
             cse_Comment = se_comment e\<rparr>"
  obtain body where body: "json_Marshal_CleanedServerError ?c = Inr body"
    by (simp add: json_Marshal_CleanedServerError_def)
  from flat_json_object_cleaned [OF body]
  have "decoded_strings E body =
          Some [''HostId'' \<mapsto> coerce_utf8 (se_hostId e), ''Code'' \<mapsto> coerce_utf8 (se_errorCode e),
                ''Message'' \<mapsto> coerce_utf8 (se_message e),
                ''Comment'' \<mapsto> coerce_utf8 (se_comment e)]"
    by (simp add: decoded_strings_def string_members_cleaned)
  with body show ?thesis
    by (simp add: CleanError_def NewServerError_def member_or_def)
qed

lemma coerce_utf8_throttled:
  "coerce_utf8 ''r-kvstore.aliyuncs.com'' = ''r-kvstore.aliyuncs.com''"
  "coerce_utf8 ''Throttling'' = ''Throttling''"
  "coerce_utf8 ''request R1 failed'' = ''request R1 failed''"
  by (simp_all add: coerce_utf8.simps)

text \<open>
  Claim C5, as stated, says that the message of the cleaned error never contains the
  original request ID. \<open>CleanError\<close> drops the request-ID field and carries the message
  over, so a message that quotes the ID keeps it: the vendor error \<open>throttled\<close> has the
  request ID \<open>R1\<close>, and the message of its cleaned error contains \<open>R1\<close>.
\<close>

theorem CleanError_message_keeps_quoted_id:
  "se_requestId throttled = ''R1''
   \<and> CleanError test_env (Some (ServerErr throttled))
       = Some (ServerErr (throttled\<lparr>se_requestId := []\<rparr>))
   \<and> strings_Contains (se_message (throttled\<lparr>se_requestId := []\<rparr>)) ''R1''"
  by (simp add: CleanError_server_error) (simp add: throttled_def coerce_utf8_throttled)

text \<open>
  Claim C5, amended: for every vendor server error carrying a request ID, \<open>CleanError\<close>
  returns a server error whose request-ID field and recommendation are empty, whose HTTP
  status and comment are those of the original, and whose host ID, error code and
  message are the original's with every byte that is not part of a valid UTF-8 encoding
  replaced by U+FFFD. So when host ID, error code and message are valid UTF-8, the error
  code is preserved unchanged and the message is the original message, which contains
  the request ID only where the vendor's text quoted it. \<open>CleanError\<close> of nil is nil,
  and an error that is not a server error is returned unchanged.
\<close>

theorem CleanError_drops_request_id:
  "CleanError E (Some (ServerErr e)) =
     Some (ServerErr (e\<lparr>se_requestId := [],
                        se_hostId := coerce_utf8 (se_hostId e),
                        se_errorCode := coerce_utf8 (se_errorCode e),
                        se_recommend := [],
                        se_message := coerce_utf8 (se_message e)\<rparr>))
   \<and> (utf8_valid (se_hostId e) \<and> utf8_valid (se_errorCode e) \<and> utf8_valid (se_message e)
        \<longrightarrow> CleanError E (Some (ServerErr e))
              = Some (ServerErr (e\<lparr>se_requestId := [], se_recommend := []\<rparr>)))
   \<and> CleanError E None = None
   \<and> CleanError E (Some (Fundamental a msg)) = Some (Fundamental a msg)
   \<and> CleanError E (Some (Wrapped cause msg)) = Some (Wrapped cause msg)
   \<and> CleanError E (Some (Foreign msg)) = Some (Foreign msg)"
proof -
  have valid: "CleanError E (Some (ServerErr e))
              = Some (ServerErr (e\<lparr>se_requestId := [], se_recommend := []\<rparr>))"
    if "utf8_valid (se_hostId e)" and "utf8_valid (se_errorCode e)"
      and "utf8_valid (se_message e)"
    using that by (simp add: CleanError_server_error coerce_utf8_valid)
  have others: "CleanError E None = None"
    "CleanError E (Some (Fundamental a msg)) = Some (Fundamental a msg)"
    "CleanError E (Some (Wrapped cause msg)) = Some (Wrapped cause msg)"
    "CleanError E (Some (Foreign msg)) = Some (Foreign msg)"
    by (simp_all add: CleanError_def)
  from CleanError_server_error [of E e] valid others show ?thesis by blast
qed

theorem CleanError_drops_request_id_witness:
  "utf8_valid (se_hostId throttled) \<and> utf8_valid (se_errorCode throttled)
   \<and> utf8_valid (se_message throttled)
   \<and> CleanError test_env (Some (ServerErr throttled))
       = Some (ServerErr (throttled\<lparr>se_requestId := [], se_recommend := []\<rparr>))
   \<and> CleanError test_env (Some (Foreign ''timeout'')) = Some (Foreign ''timeout'')"
proof -
  have valid: "utf8_valid (se_hostId throttled)" "utf8_valid (se_errorCode throttled)"
    "utf8_valid (se_message throttled)"
    by (simp_all add: throttled_def utf8_valid.simps)
  from CleanError_drops_request_id [of test_env throttled _ "''timeout''"]
  have "utf8_valid (se_hostId throttled) \<and> utf8_valid (se_errorCode throttled)
          \<and> utf8_valid (se_message throttled)
        \<longrightarrow> CleanError test_env (Some (ServerErr throttled))
              = Some (ServerErr (throttled\<lparr>se_requestId := [], se_recommend := []\<rparr>))"
    and "CleanError test_env (Some (Foreign ''timeout'')) = Some (Foreign ''timeout'')"
    by blast+
  with valid show ?thesis by blast
qed

subsection \<open>Observe\<close>

lemma CleanError_Some: "CleanError E (Some e) \<noteq> None"
  by (cases e) (auto simp: CleanError_def errors_Wrap_def Let_def split: sum.splits)

text \<open>The client of this repository returns both values whenever it returns no error.\<close>

lemma DescribeInstance_success:
  "DescribeInstance E instanceId w = (w1, resp, conn, None) \<Longrightarrow> resp \<noteq> None \<and> conn \<noteq> None"
  by (auto simp: DescribeInstance_def Let_def errors_Wrap_def errors_New_def CleanError_Some
      split: sum.splits list.splits option.splits)

text \<open>With this client, an instance that the vendor describes is observed as existing and
  up to date, after one call to the client and one to the vendor.\<close>

lemma Observe_with_client:
  assumes "GetExternalName cr \<noteq> []"
    and "sdk_DescribeInstanceAttribute E
           \<lparr>dia_Scheme = ''https'', dia_InstanceId = GetExternalName cr\<rparr> = Inr (attr # rest)"
  shows "\<exists>w1 cr' cd. Observe (client E) w (RedisInstanceManaged cr) =
           Returns (w1, RedisInstanceManaged cr',
                    \<lparr>eo_ResourceExists = True, eo_ResourceUpToDate = True,
                     eo_ConnectionDetails = Some cd\<rparr>, None)
         \<and> trace w1 = trace w @ [ClientDescribeInstance (GetExternalName cr),
                                   SdkDescribeInstanceAttribute
                                     \<lparr>dia_Scheme = ''https'',
                                      dia_InstanceId = GetExternalName cr\<rparr>]"
  using assms
  by (simp add: Observe_def client_def DescribeInstance_def Let_def emit_def
      CreateDescribeInstanceAttributeRequest_def HTTPSScheme_def getConnectionDetails_def)

text \<open>
  Claim C2: for every \<open>RedisInstance\<close> whose external name is empty, whatever its spec,
  \<open>Observe\<close> returns \<open>ResourceExists = false\<close> and no error and leaves the world as it
  was: the client is not called. For every \<open>RedisInstance\<close> with a non-empty external
  name for which the client's \<open>DescribeInstance\<close> succeeds (no error, with the attributes
  and the connection), \<open>Observe\<close> returns \<open>ResourceExists = true\<close> and
  \<open>ResourceUpToDate = true\<close> and no error.
\<close>

theorem Observe_exists_by_external_name:
  "(GetExternalName cr = [] \<longrightarrow>
      Observe e w (RedisInstanceManaged cr) =
        Returns (w, RedisInstanceManaged cr,
                 \<lparr>eo_ResourceExists = False, eo_ResourceUpToDate = False,
                  eo_ConnectionDetails = None\<rparr>, None))
   \<and> (GetExternalName cr \<noteq> []
        \<and> cl_DescribeInstance e (GetExternalName cr)
              (emit (ClientDescribeInstance (GetExternalName cr)) w)
            = (w1, Some attr, Some conn, None)
      \<longrightarrow> (\<exists>cr' cd. Observe e w (RedisInstanceManaged cr) =
             Returns (w1, RedisInstanceManaged cr',
                      \<lparr>eo_ResourceExists = True, eo_ResourceUpToDate = True,
                       eo_ConnectionDetails = Some cd\<rparr>, None)))"
  by (auto simp: Observe_def zero_ExternalObservation_def Let_def getConnectionDetails_def)

theorem Observe_exists_by_external_name_witness:
  "Observe fakeRedisClient world0 (RedisInstanceManaged zero_RedisInstance) =
        Returns (world0, RedisInstanceManaged zero_RedisInstance,
                 \<lparr>eo_ResourceExists = False, eo_ResourceUpToDate = False,
                  eo_ConnectionDetails = None\<rparr>, None)
   \<and> (\<exists>cr' cd. Observe fakeRedisClient world0
                  (RedisInstanceManaged (zero_RedisInstance
                     \<lparr>ri_Annotations := [''crossplane.io/external-name'' \<mapsto> ''testId'']\<rparr>)) =
             Returns (emit (ClientDescribeInstance ''testId'') world0, RedisInstanceManaged cr',
                      \<lparr>eo_ResourceExists = True, eo_ResourceUpToDate = True,
                       eo_ConnectionDetails = Some cd\<rparr>, None))"
  using Observe_exists_by_external_name [of zero_RedisInstance fakeRedisClient world0]
    Observe_exists_by_external_name
      [of "zero_RedisInstance\<lparr>ri_Annotations := [''crossplane.io/external-name'' \<mapsto> ''testId'']\<rparr>"
          fakeRedisClient world0
          "emit (ClientDescribeInstance ''testId'') world0"
          "zero_DBInstanceAttribute
             \<lparr>attr_InstanceId := ''testId'', attr_InstanceStatus := ''Normal'',
              attr_ConnectionDomain := ''172.0.0.1'', attr_Port := 8080\<rparr>"
          "\<lparr>rc_Username = [], rc_Password = [], rc_ConnectionDomain = ''172.0.0.1'',
            rc_Port = ''8080''\<rparr>"]
  by (simp add: GetExternalName_def zero_RedisInstance_def AnnotationKeyExternalName_def
      fakeRedisClient_def testId_def testAddress_def testPort_def testPortInt_def
      RedisInstanceStateRunning_def)

subsection \<open>Delete\<close>

lemma GetExternalName_SetConditions [simp]:
  "GetExternalName (SetConditions cr c) = GetExternalName cr"
  by (simp add: GetExternalName_def SetConditions_def)

text \<open>What holds of \<open>Delete\<close>: it returns no error when the client's delete call returns
  none or fails with a "not found" error (one in which \<open>errors.As\<close> finds a server error
  with the code \<open>InvalidInstanceId.NotFound\<close>); and for a resource that is not observed
  as deleting, every other failure is returned wrapped with the prefix
  \<open>cannot delete redis instance\<close>.\<close>

lemma Delete_ignores_not_found:
  assumes "cl_DeleteInstance e (GetExternalName cr)
             (emit (ClientDeleteInstance (GetExternalName cr)) w) = (w1, err)"
    and "err = None \<or> (\<exists>x srv. err = Some x \<and> errors_As_ServerError x = Some srv
                          \<and> se_errorCode srv = ''InvalidInstanceId.NotFound'')"
  shows "snd (snd (Delete e w (RedisInstanceManaged cr))) = None"
  using assms
  by (auto simp: Delete_def Let_def resource_Ignore_def IsErrorNotFound_def errors_Wrap_def
      errInstanceNotFoundCode_def)

lemma Delete_wraps_other_failures:
  assumes "cl_DeleteInstance e (GetExternalName cr)
             (emit (ClientDeleteInstance (GetExternalName cr)) w) = (w1, Some x)"
    and "allocated (next_addr w1) x"
    and "\<not> (\<exists>srv. errors_As_ServerError x = Some srv
                  \<and> se_errorCode srv = ''InvalidInstanceId.NotFound'')"
    and "obs_InstanceStatus (ri_AtProvider cr) \<noteq> RedisInstanceStateDeleting"
  shows "snd (snd (Delete e w (RedisInstanceManaged cr)))
           = Some (Wrapped x ''cannot delete redis instance'')"
  using IsErrorNotFound_allocated [OF assms(2)] assms(1,3)
  by (simp add: Delete_def Let_def resource_Ignore_def errors_Wrap_def
      errInstanceNotFoundCode_def errDeleteFailed_def split_beta)

text \<open>
  Claim C3 says that \<open>Delete\<close> returns no error when the observed status of the resource
  is already the deleting state, and the repository's delete test "Managed resource is
  already in a delete state" expects just that of a resource with no external name and
  a client whose delete call fails for it. \<open>Delete\<close> does not read the status: for that
  resource and that client it returns the failure, wrapped.
\<close>

theorem Delete_fails_while_deleting:
  "obs_InstanceStatus (ri_AtProvider deleting_instance) = RedisInstanceStateDeleting
   \<and> GetExternalName deleting_instance = []
   \<and> snd (snd (Delete fakeRedisClient world0 (RedisInstanceManaged deleting_instance)))
      = Some (Wrapped (Fundamental 0 ''DeleteRedisInstance: client doesn't work'')
                ''cannot delete redis instance'')"
  by (simp add: Delete_def deleting_instance_def zero_RedisInstance_def
      RedisInstanceStateDeleting_def fakeRedisClient_def GetExternalName_def SetConditions_def
      AnnotationKeyExternalName_def testId_def world0_def errors_New_def emit_def
      resource_Ignore_def IsErrorNotFound_def errors_Wrap_def errDeleteFailed_def
      errInstanceNotFound_def Let_def)

subsection \<open>CreateInstance\<close>

lemma created_requests_append:
  "created_requests (xs @ ys) = created_requests xs @ created_requests ys"
  by (induction xs rule: created_requests.induct) auto

lemma append_tags_eq:
  "append_tags acc tags = acc @ map (\<lambda>t. \<lparr>cit_Key = tag_Key t, cit_Value = tag_Value t\<rparr>) tags"
  by (induction tags arbitrary: acc) auto

text \<open>
  With an empty \<open>Password\<close> in the parameters and a generator that succeeds, the generator
  is called before the vendor, the request carries the generated password, and so does
  the connection returned when the vendor accepts the request.
\<close>

lemma CreateInstance_generated_password:
  assumes "p_Password p = []" and "password_Generate E = Inr generated"
  shows "\<exists>request.
           trace (fst (CreateInstance E name p w))
             = trace w @ [CallPasswordGenerate, SdkCreateInstance request]
         \<and> cir_Password request = generated
         \<and> (\<forall>resp. sdk_CreateInstance E request = Inr resp \<longrightarrow>
               map_option rc_Password (fst (snd (snd (CreateInstance E name p w))))
                 = Some generated)"
  using assms
  by (auto simp: CreateInstance_def Let_def emit_def split: sum.splits option.splits)

text \<open>
  Claim C1 holds for an empty \<open>Password\<close> (the lemma above) and fails for a password
  supplied by the user: \<open>request.Password\<close> is set from the local variable \<open>pw\<close>, which
  stays empty unless a password is generated. With the password \<open>testPassword\<close> of the
  repository's own create test, the request handed to the vendor carries an empty
  password, and so does the connection returned.
\<close>

theorem CreateInstance_user_password_not_sent:
  "map cir_Password (created_requests (trace (fst
      (CreateInstance test_env ''testName''
         (zero_RedisInstanceParameters\<lparr>p_Password := ''testPassword''\<rparr>) world0)))) = ['''']
   \<and> map_option rc_Password (fst (snd (snd
      (CreateInstance test_env ''testName''
         (zero_RedisInstanceParameters\<lparr>p_Password := ''testPassword''\<rparr>) world0)))) = Some []"
  by (simp add: CreateInstance_def Let_def emit_def test_env_def world0_def
      zero_RedisInstanceParameters_def make_CreateInstanceTags_def)

text \<open>
  Claim C10: for every parameter set with \<open>n\<close> tags, whenever \<open>CreateInstance\<close> gets as far
  as building the request (the password generator, if called, does not fail), the request
  it hands to the vendor has a tag list of length \<open>2 * n\<close>: the first \<open>n\<close> entries are the
  zero values that \<open>make\<close> allocated, with empty key and value, and the desired tags are
  the second half.
\<close>

theorem CreateInstance_tag_list_doubled:
  assumes "p_Password p = [] \<longrightarrow> \<not> isl (password_Generate E)"
  shows "\<exists>request tags.
           created_requests (trace (fst (CreateInstance E name p w)))
             = created_requests (trace w) @ [request]
         \<and> cir_Tag request = Some tags
         \<and> length tags = 2 * length (p_Tag p)
         \<and> take (length (p_Tag p)) tags
             = replicate (length (p_Tag p)) \<lparr>cit_Key = [], cit_Value = []\<rparr>
         \<and> drop (length (p_Tag p)) tags
             = map (\<lambda>t. \<lparr>cit_Key = tag_Key t, cit_Value = tag_Value t\<rparr>) (p_Tag p)"
  using assms
  by (auto simp: CreateInstance_def Let_def emit_def created_requests_append append_tags_eq
      make_CreateInstanceTags_def split: sum.splits option.splits)

theorem CreateInstance_tag_list_doubled_witness:
  "p_Password two_tags = [] \<and> password_Generate test_env = Inr ''k9Zq4TmW2xLc7RbN8sVd5HyG3Jf''
   \<and> (\<exists>request tags.
           created_requests (trace (fst (CreateInstance test_env ''testName'' two_tags world0)))
             = [request]
         \<and> cir_Tag request = Some tags
         \<and> length tags = 4
         \<and> take 2 tags = [\<lparr>cit_Key = [], cit_Value = []\<rparr>, \<lparr>cit_Key = [], cit_Value = []\<rparr>]
         \<and> drop 2 tags = [\<lparr>cit_Key = ''env'', cit_Value = ''prod''\<rparr>,
                          \<lparr>cit_Key = ''team'', cit_Value = ''db''\<rparr>])"
proof -
  have no_password: "p_Password two_tags = []"
    by (simp add: two_tags_def zero_RedisInstanceParameters_def)
  have generated: "password_Generate test_env = Inr ''k9Zq4TmW2xLc7RbN8sVd5HyG3Jf''"
    by (simp add: test_env_def)
  have tags: "p_Tag two_tags = [\<lparr>tag_Key = ''env'', tag_Value = ''prod''\<rparr>,
                                \<lparr>tag_Key = ''team'', tag_Value = ''db''\<rparr>]"
    by (simp add: two_tags_def zero_RedisInstanceParameters_def)
  have before: "created_requests (trace world0) = []"
    by (simp add: world0_def)
  from CreateInstance_tag_list_doubled [of two_tags test_env "''testName''" world0]
    no_password generated
  show ?thesis
    unfolding tags before by (simp add: eval_nat_numeral)
qed

subsection \<open>Parameter drift\<close>

text \<open>
  The loop over the desired entries, started on a map that is not nil: it ends with the
  actual map overridden by the desired entries, and the flag is raised exactly when some
  desired entry is missing from the actual map or differs there.
\<close>

lemma range_wanted_Some:
  "distinct (map fst ws) \<Longrightarrow>
   \<exists>m'. range_wanted ws (Some m) nu =
           Returns (Some m', nu \<or> (\<exists>k v. map_of ws k = Some v \<and> map_of m k \<noteq> Some v))
        \<and> map_of m' = map_of m ++ map_of ws"
proof (induction ws arbitrary: m nu)
  case Nil
  then show ?case by simp
next
  case (Cons kv ws)
  obtain k v where kv: "kv = (k, v)" by (cases kv)
  from Cons.prems kv have dist: "distinct (map fst ws)" and fresh: "k \<notin> fst ` set ws" by auto
  from fresh have none: "map_of ws k = None" by (simp add: map_of_eq_None_iff)
  show ?case
  proof (cases "map_of m k = Some v")
    case True
    from Cons.IH [OF dist, of m nu] obtain m' where
      step: "range_wanted ws (Some m) nu =
               Returns (Some m', nu \<or> (\<exists>k v. map_of ws k = Some v \<and> map_of m k \<noteq> Some v))"
      and maps: "map_of m' = map_of m ++ map_of ws" by blast
    have run: "range_wanted (kv # ws) (Some m) nu = range_wanted ws (Some m) nu"
      using True by (simp add: kv map_index_def)
    have flag: "(\<exists>k' v'. map_of (kv # ws) k' = Some v' \<and> map_of m k' \<noteq> Some v')
                = (\<exists>k' v'. map_of ws k' = Some v' \<and> map_of m k' \<noteq> Some v')"
    proof
      assume "\<exists>k' v'. map_of (kv # ws) k' = Some v' \<and> map_of m k' \<noteq> Some v'"
      then obtain k' v' where hit: "map_of (kv # ws) k' = Some v'" and differs: "map_of m k' \<noteq> Some v'"
        by blast
      from hit differs True have "k' \<noteq> k" by (auto simp: kv split: if_splits)
      with hit have "map_of ws k' = Some v'" by (simp add: kv)
      with differs show "\<exists>k' v'. map_of ws k' = Some v' \<and> map_of m k' \<noteq> Some v'" by blast
    next
      assume "\<exists>k' v'. map_of ws k' = Some v' \<and> map_of m k' \<noteq> Some v'"
      then obtain k' v' where hit: "map_of ws k' = Some v'" and differs: "map_of m k' \<noteq> Some v'"
        by blast
      from hit none have "k' \<noteq> k" by auto
      with hit have "map_of (kv # ws) k' = Some v'" by (simp add: kv)
      with differs show "\<exists>k' v'. map_of (kv # ws) k' = Some v' \<and> map_of m k' \<noteq> Some v'" by blast
    qed
    have merged: "map_of m ++ map_of (kv # ws) = map_of m ++ map_of ws"
      using True none by (auto simp: kv fun_eq_iff map_add_def split: option.splits)
    have result: "range_wanted (kv # ws) (Some m) nu =
               Returns (Some m', nu \<or> (\<exists>k' v'. map_of (kv # ws) k' = Some v' \<and> map_of m k' \<noteq> Some v'))"
      by (simp only: run step flag)
    have "map_of m' = map_of m ++ map_of (kv # ws)"
      by (simp only: maps merged)
    with result show ?thesis by blast
  next
    case False
    let ?m1 = "AList.update k v m"
    from Cons.IH [OF dist, of ?m1 True] obtain m' where
      step: "range_wanted ws (Some ?m1) True = Returns (Some m', True)"
      and maps: "map_of m' = map_of ?m1 ++ map_of ws" by auto
    have run: "range_wanted (kv # ws) (Some m) nu = range_wanted ws (Some ?m1) True"
      using False by (auto simp: kv map_index_def map_assign_def split: option.splits)
    have flag: "\<exists>k' v'. map_of (kv # ws) k' = Some v' \<and> map_of m k' \<noteq> Some v'"
      using False by (auto simp: kv intro!: exI [of _ k])
    have merged: "map_of ?m1 ++ map_of ws = map_of m ++ map_of (kv # ws)"
      using none by (auto simp: kv fun_eq_iff update_conv' map_add_def split: option.splits)
    from flag have result: "range_wanted (kv # ws) (Some m) nu =
               Returns (Some m', nu \<or> (\<exists>k' v'. map_of (kv # ws) k' = Some v' \<and> map_of m k' \<noteq> Some v'))"
      by (simp only: run step simp_thms)
    have "map_of m' = map_of m ++ map_of (kv # ws)"
      by (simp only: maps merged)
    with result show ?thesis by blast
  qed
qed

text \<open>A nil actual map, which \<open>json.Unmarshal\<close> leaves for the text \<open>null\<close>, makes the
  first write of the loop panic.\<close>

lemma ParamsNeedUpdate_nil_actual_panics:
  \<open>ParamsNeedUpdate test_env (zero_DBInstanceAttribute\<lparr>attr_Config := ''null''\<rparr>)
     allkeys_params = Panics\<close>
  by (simp add: allkeys_params_def zero_RedisInstanceParameters_def zero_DBInstanceAttribute_def
      test_env_def table_Unmarshal_map_def ParamsNeedUpdate_def calculateParamDiff_def
      map_entries_def map_index_def map_assign_def)

text \<open>
  Claim C7, as stated, holds for every \<open>Config\<close> that is valid JSON. The vendor's
  configuration text may be valid JSON and still not decode into a \<open>map[string]string\<close>:
  with the member \<open>"hash-max-ziplist-entries":512\<close>, a number, \<open>json.Unmarshal\<close> fails,
  and \<open>ParamsNeedUpdate\<close> returns that error and no request, although the desired
  configuration is not empty, decodes, and names a key the instance does not have.
\<close>

theorem ParamsNeedUpdate_number_in_config:
  \<open>p_ParameterConfig allkeys_params \<noteq> []
   \<and> json_Unmarshal_map test_env (p_ParameterConfig allkeys_params)
       = Inr (Some [(''maxmemory-policy'', ''allkeys-lru'')])
   \<and> ParamsNeedUpdate test_env
        (zero_DBInstanceAttribute\<lparr>attr_Config := ''{"hash-max-ziplist-entries":512}''\<rparr>)
        allkeys_params
      = Returns (None,
                 Some (Wrapped
                         (Foreign ''json: cannot unmarshal number into Go value of type string'')
                         ''cannot unmarshal the json config from the real instance''))\<close>
  by (simp add: allkeys_params_def zero_RedisInstanceParameters_def zero_DBInstanceAttribute_def
      test_env_def table_Unmarshal_map_def ParamsNeedUpdate_def calculateParamDiff_def
      errors_Wrap_def errFailedToUnmarshalRealConfig_def)

text \<open>
  Claim C7, amended: for every attribute snapshot whose \<open>Config\<close> decodes into a
  string-to-string mapping (not nil) and every parameter set whose non-empty
  \<open>ParameterConfig\<close> decodes into such a mapping, \<open>ParamsNeedUpdate\<close> returns no error,
  and a request exactly when some key of the desired mapping is missing from the actual
  mapping or has another value there; the \<open>Parameters\<close> of the request are the JSON
  encoding of the actual mapping overridden by the desired one. With an empty
  \<open>ParameterConfig\<close> it returns no request and no error. The entries of a Go map have
  distinct keys; the encoder is taken not to fail on a map of strings.
\<close>

theorem ParamsNeedUpdate_merges_desired:
  "(p_ParameterConfig p = [] \<longrightarrow> ParamsNeedUpdate E attr p = Returns (None, None))
   \<and> (p_ParameterConfig p \<noteq> []
        \<and> json_Unmarshal_map E (attr_Config attr) = Inr (Some actual)
        \<and> json_Unmarshal_map E (p_ParameterConfig p) = Inr wanted
        \<and> distinct (map fst (map_entries wanted))
        \<and> json_Marshal_map E (Some (map_of actual ++ map_of (map_entries wanted)))
            = Inr configStr
      \<longrightarrow> ParamsNeedUpdate E attr p =
            Returns (if \<exists>k v. map_of (map_entries wanted) k = Some v \<and> map_of actual k \<noteq> Some v
                     then Some \<lparr>mip_InstanceId = [], mip_Parameters = configStr\<rparr>
                     else None,
                     None))"
proof -
  have empty: "p_ParameterConfig p = [] \<longrightarrow> ParamsNeedUpdate E attr p = Returns (None, None)"
    by (simp add: ParamsNeedUpdate_def calculateParamDiff_def)
  have drift: "ParamsNeedUpdate E attr p =
            Returns (if \<exists>k v. map_of (map_entries wanted) k = Some v \<and> map_of actual k \<noteq> Some v
                     then Some \<lparr>mip_InstanceId = [], mip_Parameters = configStr\<rparr>
                     else None,
                     None)"
    if cfg: "p_ParameterConfig p \<noteq> []"
      and act: "json_Unmarshal_map E (attr_Config attr) = Inr (Some actual)"
      and want: "json_Unmarshal_map E (p_ParameterConfig p) = Inr wanted"
      and dist: "distinct (map fst (map_entries wanted))"
      and enc: "json_Marshal_map E (Some (map_of actual ++ map_of (map_entries wanted)))
                  = Inr configStr"
  proof -
    from range_wanted_Some [OF dist, of actual False] obtain m' where
      loop: "range_wanted (map_entries wanted) (Some actual) False =
               Returns (Some m',
                        \<exists>k v. map_of (map_entries wanted) k = Some v \<and> map_of actual k \<noteq> Some v)"
      and maps: "map_of m' = map_of actual ++ map_of (map_entries wanted)" by auto
    from cfg act want loop maps enc show ?thesis
      by (simp add: ParamsNeedUpdate_def calculateParamDiff_def map_value_def
          CreateModifyInstanceParameterRequest_def)
  qed
  from empty drift show ?thesis by blast
qed

theorem ParamsNeedUpdate_merges_desired_witness:
  \<open>ParamsNeedUpdate test_env volatile_attr zero_RedisInstanceParameters = Returns (None, None)
   \<and> ParamsNeedUpdate test_env volatile_attr allkeys_params
       = Returns (Some \<lparr>mip_InstanceId = [],
                         mip_Parameters = ''{"maxmemory-policy":"allkeys-lru","timeout":"0"}''\<rparr>,
                  None)\<close>
  using ParamsNeedUpdate_merges_desired [of zero_RedisInstanceParameters test_env volatile_attr]
    ParamsNeedUpdate_merges_desired
      [of allkeys_params test_env volatile_attr
          \<open>[(''maxmemory-policy'', ''volatile-lru''), (''timeout'', ''0'')]\<close>
          \<open>Some [(''maxmemory-policy'', ''allkeys-lru'')]\<close>
          \<open>''{"maxmemory-policy":"allkeys-lru","timeout":"0"}''\<close>]
  by (simp add: zero_RedisInstanceParameters_def allkeys_params_def volatile_attr_def
      zero_DBInstanceAttribute_def test_env_def table_Unmarshal_map_def
      two_key_Marshal_map_def map_entries_def)

end
